theory Spec2Isabelle
  imports Main "HOL-Library.Word"
begin

unbundle bit_operations_syntax

section \<open>Strings, bytes and thrown values\<close>

text \<open>
  The SDK (\<^verbatim>\<open>src/core.ts\<close>, \<^verbatim>\<open>src/utils.ts\<close>) works on JavaScript strings and
  \<^verbatim>\<open>Uint8Array\<close>s. A string is modelled as a \<^typ>\<open>string\<close> whose characters are the code
  units below 256 (ASCII and Latin-1), an element of a \<^verbatim>\<open>Uint8Array\<close> as an 8-bit word.
  Every \<^verbatim>\<open>throw new Error(msg)\<close> is the value \<open>Inl (Error msg)\<close> of a sum type.
\<close>

type_synonym byte = "8 word"

datatype error = Error (message: string)

text \<open>\<^verbatim>\<open>error?.message || String(error)\<close> for an \<^verbatim>\<open>Error\<close> object: the message, or the
  name \<^verbatim>\<open>Error\<close> when the message is the empty string.\<close>

definition messageOrString :: "error \<Rightarrow> string" where
  "messageOrString e = (if message e \<noteq> [] then message e else ''Error'')"

text \<open>\<^verbatim>\<open>s.startsWith("0x")\<close>, \<^verbatim>\<open>s.slice(a, b)\<close> for \<open>0 \<le> a \<le> b\<close>, and the decimal
  rendering of a length inside a template string.\<close>

definition startsWith0x :: "string \<Rightarrow> bool" where
  "startsWith0x s = (take 2 s = ''0x'')"

definition slice :: "nat \<Rightarrow> nat \<Rightarrow> string \<Rightarrow> string" where
  "slice a b s = take (b - a) (drop a s)"

fun string_of_nat :: "nat \<Rightarrow> string" where
  "string_of_nat n =
     (if n < 10 then [''0123456789'' ! n]
      else string_of_nat (n div 10) @ [''0123456789'' ! (n mod 10)])"

text \<open>\<^verbatim>\<open>s.toLowerCase()\<close> on code units below 256: the ASCII capitals and the Latin-1
  capitals (U+00C0 to U+00DE without the multiplication sign U+00D7) move up by 32.\<close>

definition toLowerChar :: "char \<Rightarrow> char" where
  "toLowerChar c =
     (let n = (of_char c :: nat)
      in if (65 \<le> n \<and> n \<le> 90) \<or> (192 \<le> n \<and> n \<le> 222 \<and> n \<noteq> 215)
         then char_of (n + 32) else c)"

definition toLowerCase :: "string \<Rightarrow> string" where
  "toLowerCase s = map toLowerChar s"

text \<open>\<^verbatim>\<open>s.replace(/^0x/, "")\<close>.\<close>

definition replaceLeading0x :: "string \<Rightarrow> string" where
  "replaceLeading0x s = (if startsWith0x s then drop 2 s else s)"

subsection \<open>\<^verbatim>\<open>parseInt(s, 16)\<close> and storing into a \<^verbatim>\<open>Uint8Array\<close>\<close>

text \<open>
  \<^verbatim>\<open>parseInt\<close> skips leading white space, reads an optional sign, skips one \<^verbatim>\<open>0x\<close> or
  \<^verbatim>\<open>0X\<close>, and reads the longest run of hexadecimal digits; with no digit the result is
  \<^verbatim>\<open>NaN\<close> (\<open>None\<close>). Storing a number into a \<^verbatim>\<open>Uint8Array\<close> reduces it modulo 256 and
  stores 0 for \<^verbatim>\<open>NaN\<close>.
\<close>

definition hexDigitValue :: "char \<Rightarrow> nat option" where
  "hexDigitValue c =
     (let n = (of_char c :: nat)
      in if 48 \<le> n \<and> n \<le> 57 then Some (n - 48)
         else if 97 \<le> n \<and> n \<le> 102 then Some (n - 87)
         else if 65 \<le> n \<and> n \<le> 70 then Some (n - 55)
         else None)"

definition isWhiteSpace :: "char \<Rightarrow> bool" where
  "isWhiteSpace c = ((of_char c :: nat) \<in> {9, 10, 11, 12, 13, 32, 160})"

definition parseInt16 :: "string \<Rightarrow> int option" where
  "parseInt16 s =
     (let s1 = dropWhile isWhiteSpace s;
          sign = (if take 1 s1 = ''-'' then - 1 else (1 :: int));
          s2 = (if take 1 s1 = ''-'' \<or> take 1 s1 = ''+'' then drop 1 s1 else s1);
          s3 = (if take 2 s2 = ''0x'' \<or> take 2 s2 = ''0X'' then drop 2 s2 else s2);
          ds = takeWhile (\<lambda>c. hexDigitValue c \<noteq> None) s3
      in if ds = [] then None
         else Some (sign * int (foldl (\<lambda>acc c. 16 * acc + the (hexDigitValue c)) 0 ds)))"

definition toUint8 :: "int option \<Rightarrow> byte" where
  "toUint8 v = (case v of None \<Rightarrow> 0 | Some i \<Rightarrow> word_of_int i)"

subsection \<open>\<^verbatim>\<open>src/utils.ts\<close>: the hex codec\<close>

text \<open>
  \<^verbatim>\<open>hexToUint8Array\<close> allocates \<open>\<lfloor>length / 2\<rfloor>\<close> bytes and parses the string two
  characters at a time; with an odd length the last, single character is parsed but its
  index is outside the array, so the write is dropped.
\<close>

fun parsePairs :: "string \<Rightarrow> byte list" where
  "parsePairs (a # b # rest) = toUint8 (parseInt16 [a, b]) # parsePairs rest"
| "parsePairs rest = []"

definition hexToUint8Array :: "string \<Rightarrow> byte list" where
  "hexToUint8Array hex =
     (let hexStr = (if startsWith0x hex then drop 2 hex else hex)
      in parsePairs hexStr)"

text \<open>\<^verbatim>\<open>b.toString(16).padStart(2, "0")\<close>: two lowercase hexadecimal digits.\<close>

definition hexChar :: "nat \<Rightarrow> char" where
  "hexChar n = ''0123456789abcdef'' ! n"

definition byteToHex :: "byte \<Rightarrow> string" where
  "byteToHex b = [hexChar (unat b div 16), hexChar (unat b mod 16)]"

definition uint8ArrayToHex :: "byte list \<Rightarrow> string" where
  "uint8ArrayToHex bytes = ''0x'' @ concat (map byteToHex bytes)"

subsection \<open>The codec of the \<^verbatim>\<open>viem\<close> package\<close>

text \<open>
  \<^verbatim>\<open>toHex\<close> on bytes writes the same text as \<^verbatim>\<open>uint8ArrayToHex\<close>. \<^verbatim>\<open>hexToBytes\<close> drops the
  first two characters without looking at them, pads an odd number of digits with a
  leading \<^verbatim>\<open>0\<close>, and throws on a character that is no hexadecimal digit. The error is a
  \<^verbatim>\<open>BaseError\<close> of the library: its message is the short message, an empty line and the
  line \<^verbatim>\<open>Version: viem@\<close> with the version of the installed package, which is the
  parameter \<open>version\<close>.
\<close>

definition toHex :: "byte list \<Rightarrow> string" where
  "toHex bytes = ''0x'' @ concat (map byteToHex bytes)"

definition baseErrorMessage :: "string \<Rightarrow> string \<Rightarrow> string" where
  "baseErrorMessage version shortMessage =
     shortMessage @ [CHR 0x0A, CHR 0x0A] @ ''Version: viem@'' @ version"

fun nibblePairs :: "string \<Rightarrow> string \<Rightarrow> string \<Rightarrow> error + byte list" where
  "nibblePairs version whole (a # b # rest) =
     (case (hexDigitValue a, hexDigitValue b) of
        (Some l, Some r) \<Rightarrow>
          (case nibblePairs version whole rest of
             Inl e \<Rightarrow> Inl e
           | Inr bytes \<Rightarrow> Inr (word_of_nat (l * 16 + r) # bytes))
      | _ \<Rightarrow> Inl (Error (baseErrorMessage version
                         (''Invalid byte sequence ('' @ [CHR 0x22, a, b, CHR 0x22] @ '' in ''
                          @ [CHR 0x22] @ whole @ [CHR 0x22] @ '').''))))"
| "nibblePairs version whole rest = Inr []"

definition hexToBytes :: "string \<Rightarrow> string \<Rightarrow> error + byte list" where
  "hexToBytes version hex =
     (let hexString = drop 2 hex;
          padded = (if odd (length hexString) then CHR ''0'' # hexString else hexString)
      in nibblePairs version padded padded)"

section \<open>The curve and hash libraries\<close>

text \<open>
  The elliptic-curve library (\<^verbatim>\<open>@noble/curves\<close>), the hash and the account functions of
  \<^verbatim>\<open>viem\<close> are outside the repository. The SDK is modelled over a record of the functions
  it calls:
  \<^item> \<open>getPublicKey priv isCompressed\<close> and \<open>getSharedSecret priv pub isCompressed\<close> of
    \<^verbatim>\<open>secp256k1\<close>, which throw on a scalar or point they reject;
  \<^item> \<open>keccak_256\<close> on bytes;
  \<^item> \<open>accountAddress pk\<close>, the \<^verbatim>\<open>address\<close> of \<^verbatim>\<open>privateKeyToAccount(pk)\<close>, which throws on
    a private key the curve rejects;
  \<^item> \<open>randomPrivateKey\<close>, the secure random source behind \<^verbatim>\<open>generatePrivateKey\<close>, as a
    step on a state \<open>'s\<close>;
  \<^item> \<open>viemVersion\<close>, the version string that the errors of \<^verbatim>\<open>viem\<close> carry.
\<close>

record 's adapter =
  getPublicKey :: "byte list \<Rightarrow> bool \<Rightarrow> error + byte list"
  getSharedSecret :: "byte list \<Rightarrow> byte list \<Rightarrow> bool \<Rightarrow> error + byte list"
  keccak_256 :: "byte list \<Rightarrow> byte list"
  accountAddress :: "string \<Rightarrow> error + string"
  randomPrivateKey :: "'s \<Rightarrow> byte list \<times> 's"
  viemVersion :: string

text \<open>\<^verbatim>\<open>keccak256(hex)\<close> of \<^verbatim>\<open>viem\<close>: decode the hex string, hash, encode as hex.
  \<^verbatim>\<open>generatePrivateKey()\<close> of \<^verbatim>\<open>viem\<close>: the hex text of a random private key.\<close>

definition keccak256 :: "'s adapter \<Rightarrow> string \<Rightarrow> error + string" where
  "keccak256 A hex =
     (case hexToBytes (viemVersion A) hex of
        Inl e \<Rightarrow> Inl e
      | Inr bytes \<Rightarrow> Inr (toHex (keccak_256 A bytes)))"

definition generatePrivateKey :: "'s adapter \<Rightarrow> 's \<Rightarrow> string \<times> 's" where
  "generatePrivateKey A s = (let (bytes, s') = randomPrivateKey A s in (toHex bytes, s'))"

section \<open>\<^verbatim>\<open>src/utils.ts\<close> and \<^verbatim>\<open>src/core.ts\<close>\<close>

definition derivePublicKey :: "'s adapter \<Rightarrow> string \<Rightarrow> error + string" where
  "derivePublicKey A privateKey =
     (let privBytes = hexToUint8Array privateKey
      in case getPublicKey A privBytes True of
           Inl e \<Rightarrow> Inl e
         | Inr pubKey \<Rightarrow> Inr (uint8ArrayToHex pubKey))"

text \<open>The body of the \<^verbatim>\<open>try\<close> block of \<^verbatim>\<open>computeECDH\<close>.\<close>

definition computeECDH_try :: "'s adapter \<Rightarrow> string \<Rightarrow> string \<Rightarrow> error + string" where
  "computeECDH_try A privateKey publicKey =
     (if privateKey = [] \<or> publicKey = [] then Inl (Error ''Missing private or public key'')
      else
        let privKey = (if startsWith0x privateKey then privateKey else ''0x'' @ privateKey);
            pubKey = (if startsWith0x publicKey then publicKey else ''0x'' @ publicKey)
        in if length privKey \<noteq> 66
           then Inl (Error (''Invalid private key length: '' @ string_of_nat (length privKey)
                            @ '', expected 66''))
           else
             let pubKeyHexLength = length pubKey - 2
             in if pubKeyHexLength \<noteq> 66 \<and> pubKeyHexLength \<noteq> 130
                then Inl (Error (''Invalid public key length: '' @ string_of_nat (length pubKey)
                                 @ '', expected 68 or 132''))
                else
                  let privBytes = hexToUint8Array privKey;
                      pubBytes = hexToUint8Array pubKey
                  in case getSharedSecret A privBytes pubBytes True of
                       Inl e \<Rightarrow> Inl e
                     | Inr sharedPoint \<Rightarrow> keccak256 A (uint8ArrayToHex sharedPoint))"

text \<open>\<^verbatim>\<open>computeECDH\<close>: whatever the \<^verbatim>\<open>try\<close> block throws is caught and thrown again as
  \<^verbatim>\<open>new Error(`ECDH computation failed: ${error?.message || String(error)}`)\<close>.\<close>

definition computeECDH :: "'s adapter \<Rightarrow> string \<Rightarrow> string \<Rightarrow> error + string" where
  "computeECDH A privateKey publicKey =
     (case computeECDH_try A privateKey publicKey of
        Inl e \<Rightarrow> Inl (Error (''ECDH computation failed: '' @ messageOrString e))
      | Inr sharedSecret \<Rightarrow> Inr sharedSecret)"

subsection \<open>\<^verbatim>\<open>src/types.ts\<close>\<close>

text \<open>Field names carry a prefix for their type (\<open>sk_\<close>, \<open>sa_\<close>, \<open>meta_\<close>), since
  the functions below use the bare names for their parameters and local constants.\<close>

record StealthKeys =
  sk_spendingPrivateKey :: string
  sk_viewingPrivateKey :: string
  sk_spendingPublicKey :: string
  sk_viewingPublicKey :: string

record StealthAddress =
  sa_address :: string
  sa_ephemeralPublicKey :: string
  sa_viewTag :: string

record StealthMetadata =
  meta_stealthAddress :: string
  meta_ephemeralPublicKey :: string
  meta_viewTag :: string
  meta_network :: string
  meta_createdAt :: int

subsection \<open>Key generation\<close>

definition generateStealthKeys :: "'s adapter \<Rightarrow> 's \<Rightarrow> (error + StealthKeys) \<times> 's" where
  "generateStealthKeys A s0 =
     (let (spendingPrivateKey, s1) = generatePrivateKey A s0;
          (viewingPrivateKey, s2) = generatePrivateKey A s1
      in ((case derivePublicKey A spendingPrivateKey of
            Inl e \<Rightarrow> Inl e
          | Inr spendingPublicKey \<Rightarrow>
              (case derivePublicKey A viewingPrivateKey of
                 Inl e \<Rightarrow> Inl e
               | Inr viewingPublicKey \<Rightarrow>
                   Inr \<lparr>sk_spendingPrivateKey = spendingPrivateKey,
                        sk_viewingPrivateKey = viewingPrivateKey,
                        sk_spendingPublicKey = spendingPublicKey,
                        sk_viewingPublicKey = viewingPublicKey\<rparr>)),
          s2))"

subsection \<open>The one-time private key\<close>

text \<open>
  \<^verbatim>\<open>generateStealthAddress\<close> (lines 84 to 91), \<^verbatim>\<open>scanStealthAddresses\<close> (lines 139 to
  146) and \<^verbatim>\<open>deriveStealthSpendingKey\<close> (lines 181 to 188) contain the same statements:
  decode the shared secret and the viewing public key with \<^verbatim>\<open>hexToBytes\<close>, concatenate
  the bytes in this order, and hash the hex text of the concatenation.
\<close>

definition stealthPrivateKeyOf :: "'s adapter \<Rightarrow> string \<Rightarrow> string \<Rightarrow> error + string" where
  "stealthPrivateKeyOf A sharedSecret viewingPub =
     (case hexToBytes (viemVersion A) sharedSecret of
        Inl e \<Rightarrow> Inl e
      | Inr sharedSecretBytes \<Rightarrow>
          (case hexToBytes (viemVersion A) viewingPub of
             Inl e \<Rightarrow> Inl e
           | Inr viewingPubBytes \<Rightarrow>
               (let combined = sharedSecretBytes @ viewingPubBytes
                in keccak256 A (toHex combined))))"

subsection \<open>\<^verbatim>\<open>generateStealthAddress\<close>\<close>

text \<open>
  The optional parameters are options; \<^verbatim>\<open>ephemeralPrivateKey || generatePrivateKey()\<close>
  draws a fresh key when the argument is absent or the empty string, and only then.
\<close>

definition generateStealthAddress ::
  "'s adapter \<Rightarrow> string \<Rightarrow> string option \<Rightarrow> string option \<Rightarrow> 's \<Rightarrow> (error + StealthAddress) \<times> 's"
where
  "generateStealthAddress A viewingPublicKey spendingPublicKey ephemeralPrivateKey s =
     (let normalizedViewingPub =
            (if startsWith0x viewingPublicKey then viewingPublicKey else ''0x'' @ viewingPublicKey);
          viewingPubHexLength = length normalizedViewingPub - 2
      in if viewingPubHexLength \<noteq> 66 \<and> viewingPubHexLength \<noteq> 130
         then (Inl (Error ''Invalid viewingPublicKey format''), s)
         else
           let (ephemeralKey, s') =
                 (case ephemeralPrivateKey of
                    None \<Rightarrow> generatePrivateKey A s
                  | Some k \<Rightarrow> if k = [] then generatePrivateKey A s else (k, s))
           in ((case derivePublicKey A ephemeralKey of
                 Inl e \<Rightarrow> Inl e
               | Inr ephemeralPublicKey \<Rightarrow>
                   (case computeECDH A ephemeralKey normalizedViewingPub of
                      Inl e \<Rightarrow> Inl e
                    | Inr sharedSecret \<Rightarrow>
                        (case stealthPrivateKeyOf A sharedSecret normalizedViewingPub of
                           Inl e \<Rightarrow> Inl e
                         | Inr stealthPrivateKey \<Rightarrow>
                             (case accountAddress A stealthPrivateKey of
                                Inl e \<Rightarrow> Inl e
                              | Inr stealthAccountAddress \<Rightarrow>
                                  (let viewTag = toLowerCase (slice 2 4 sharedSecret)
                                   in Inr \<lparr>sa_address = stealthAccountAddress,
                                           sa_ephemeralPublicKey = ephemeralPublicKey,
                                           sa_viewTag = viewTag\<rparr>))))),
               s'))"

subsection \<open>\<^verbatim>\<open>scanStealthAddresses\<close>\<close>

text \<open>
  The body of the \<^verbatim>\<open>try\<close> block inside the loop, for one record: \<open>Inr None\<close> is
  \<^verbatim>\<open>continue\<close> or falling through without a push, \<open>Inr (Some a)\<close> is
  \<^verbatim>\<open>discovered.push(a)\<close>, \<open>Inl e\<close> is a thrown value.
\<close>

definition scanRecord ::
  "'s adapter \<Rightarrow> string \<Rightarrow> string \<Rightarrow> StealthMetadata \<Rightarrow> error + StealthAddress option"
where
  "scanRecord A viewingPriv viewingPub meta =
     (if meta_stealthAddress meta = [] \<or> meta_ephemeralPublicKey meta = [] \<or> meta_viewTag meta = []
      then Inr None
      else
        let ephemeralPub =
              (if startsWith0x (meta_ephemeralPublicKey meta) then meta_ephemeralPublicKey meta
               else ''0x'' @ meta_ephemeralPublicKey meta)
        in case computeECDH A viewingPriv ephemeralPub of
             Inl e \<Rightarrow> Inl e
           | Inr sharedSecret \<Rightarrow>
               (let computedViewTag = toLowerCase (slice 2 4 sharedSecret);
                    storedViewTag = replaceLeading0x (toLowerCase (meta_viewTag meta))
                in if computedViewTag \<noteq> storedViewTag then Inr None
                   else
                     (case stealthPrivateKeyOf A sharedSecret viewingPub of
                        Inl e \<Rightarrow> Inl e
                      | Inr stealthPrivateKey \<Rightarrow>
                          (case accountAddress A stealthPrivateKey of
                             Inl e \<Rightarrow> Inl e
                           | Inr stealthAccountAddress \<Rightarrow>
                               if toLowerCase stealthAccountAddress = toLowerCase (meta_stealthAddress meta)
                               then Inr (Some \<lparr>sa_address = meta_stealthAddress meta,
                                               sa_ephemeralPublicKey = ephemeralPub,
                                               sa_viewTag = meta_viewTag meta\<rparr>)
                               else Inr None))))"

text \<open>The \<^verbatim>\<open>for\<close> loop with its \<^verbatim>\<open>catch (e) { continue; }\<close>, threading \<^verbatim>\<open>discovered\<close>.\<close>

fun scanLoop ::
  "'s adapter \<Rightarrow> string \<Rightarrow> string \<Rightarrow> StealthMetadata list \<Rightarrow> StealthAddress list \<Rightarrow> StealthAddress list"
where
  "scanLoop A viewingPriv viewingPub [] discovered = discovered"
| "scanLoop A viewingPriv viewingPub (meta # rest) discovered =
     scanLoop A viewingPriv viewingPub rest
       (case scanRecord A viewingPriv viewingPub meta of
          Inr (Some found) \<Rightarrow> discovered @ [found]
        | Inr None \<Rightarrow> discovered
        | Inl e \<Rightarrow> discovered)"

definition scanStealthAddresses ::
  "'s adapter \<Rightarrow> string \<Rightarrow> string \<Rightarrow> StealthMetadata list \<Rightarrow> error + StealthAddress list"
where
  "scanStealthAddresses A viewingPrivateKey viewingPublicKey stealthMetadata =
     (if viewingPrivateKey = [] \<or> viewingPublicKey = [] then Inl (Error ''Missing viewing keys'')
      else
        let viewingPriv =
              (if startsWith0x viewingPrivateKey then viewingPrivateKey else ''0x'' @ viewingPrivateKey);
            viewingPub =
              (if startsWith0x viewingPublicKey then viewingPublicKey else ''0x'' @ viewingPublicKey)
        in Inr (scanLoop A viewingPriv viewingPub stealthMetadata []))"

subsection \<open>\<^verbatim>\<open>deriveStealthSpendingKey\<close> and \<^verbatim>\<open>createStealthMetadata\<close>\<close>

definition deriveStealthSpendingKey ::
  "'s adapter \<Rightarrow> string \<Rightarrow> string \<Rightarrow> string \<Rightarrow> string \<Rightarrow> string option \<Rightarrow> error + string"
where
  "deriveStealthSpendingKey A spendingPrivateKey viewingPrivateKey stealthAddress
       ephemeralPublicKey viewingPublicKey =
     (case computeECDH A viewingPrivateKey ephemeralPublicKey of
        Inl e \<Rightarrow> Inl e
      | Inr sharedSecret \<Rightarrow>
          (case (case viewingPublicKey of
                   None \<Rightarrow> derivePublicKey A viewingPrivateKey
                 | Some k \<Rightarrow> if k = [] then derivePublicKey A viewingPrivateKey else Inr k) of
             Inl e \<Rightarrow> Inl e
           | Inr viewingPub \<Rightarrow>
               (case stealthPrivateKeyOf A sharedSecret viewingPub of
                  Inl e \<Rightarrow> Inl e
                | Inr stealthPrivateKey \<Rightarrow>
                    (case accountAddress A stealthPrivateKey of
                       Inl e \<Rightarrow> Inl e
                     | Inr derivedAddress \<Rightarrow>
                         if toLowerCase derivedAddress \<noteq> toLowerCase stealthAddress
                         then Inl (Error ''Derived address mismatch!'')
                         else Inr stealthPrivateKey))))"

text \<open>\<^verbatim>\<open>Date.now()\<close> is the argument \<open>now\<close>.\<close>

definition createStealthMetadata :: "StealthAddress \<Rightarrow> string \<Rightarrow> int \<Rightarrow> StealthMetadata" where
  "createStealthMetadata stealthAddress network now =
     \<lparr>meta_stealthAddress = sa_address stealthAddress,
      meta_ephemeralPublicKey = sa_ephemeralPublicKey stealthAddress,
      meta_viewTag = sa_viewTag stealthAddress,
      meta_network = network,
      meta_createdAt = now\<rparr>"

section \<open>What the SDK relies on in the libraries\<close>

text \<open>
  The facts about \<^verbatim>\<open>secp256k1\<close>, \<^verbatim>\<open>keccak256\<close> and \<^verbatim>\<open>privateKeyToAccount\<close> that the properties
  below depend on, each as a predicate on the adapter:
  \<^item> an accepted private key has 32 bytes, a compressed public key 33 and an uncompressed
    one 65;
  \<^item> Diffie-Hellman: for two accepted private keys, each one combined with the public key
    of the other gives the same shared point;
  \<^item> the uncompressed public key of a private key is accepted wherever the compressed one
    is, with the same shared point;
  \<^item> the hash has 32 bytes;
  \<^item> an account address is not the empty string.
\<close>

definition publicKeyLengths :: "'s adapter \<Rightarrow> bool" where
  "publicKeyLengths A \<longleftrightarrow>
     (\<forall>priv isCompressed pub. getPublicKey A priv isCompressed = Inr pub \<longrightarrow>
        length priv = 32 \<and> length pub = (if isCompressed then 33 else 65))"

definition ecdhSymmetric :: "'s adapter \<Rightarrow> bool" where
  "ecdhSymmetric A \<longleftrightarrow>
     (\<forall>a b pubA pubB.
        getPublicKey A a True = Inr pubA \<and> getPublicKey A b True = Inr pubB \<longrightarrow>
        (\<exists>shared. getSharedSecret A a pubB True = Inr shared
                 \<and> getSharedSecret A b pubA True = Inr shared))"

definition encodingsAgree :: "'s adapter \<Rightarrow> bool" where
  "encodingsAgree A \<longleftrightarrow>
     (\<forall>b compressed. getPublicKey A b True = Inr compressed \<longrightarrow>
        (\<exists>uncompressed. getPublicKey A b False = Inr uncompressed
           \<and> (\<forall>a. getSharedSecret A a uncompressed True = getSharedSecret A a compressed True)))"

definition hashLength :: "'s adapter \<Rightarrow> bool" where
  "hashLength A \<longleftrightarrow> (\<forall>bytes. length (keccak_256 A bytes) = 32)"

definition addressNonempty :: "'s adapter \<Rightarrow> bool" where
  "addressNonempty A \<longleftrightarrow> (\<forall>pk a. accountAddress A pk = Inr a \<longrightarrow> a \<noteq> [])"

section \<open>Notions used in the statements\<close>

text \<open>The ternary \<^verbatim>\<open>x.startsWith("0x") ? x : `0x${x}`\<close> that the source repeats.\<close>

definition with0x :: "string \<Rightarrow> string" where
  "with0x s = (if startsWith0x s then s else ''0x'' @ s)"

text \<open>The ephemeral private key that \<^verbatim>\<open>generateStealthAddress\<close> works with, that is the value
  of \<^verbatim>\<open>ephemeralPrivateKey || generatePrivateKey()\<close>: the argument, or the key drawn at state
  \<open>s\<close> when the argument is absent or empty.\<close>

definition ephemeralKeyOf :: "'s adapter \<Rightarrow> string option \<Rightarrow> 's \<Rightarrow> string" where
  "ephemeralKeyOf A ephemeralPrivateKey s =
     (case ephemeralPrivateKey of
        None \<Rightarrow> fst (generatePrivateKey A s)
      | Some k \<Rightarrow> if k = [] then fst (generatePrivateKey A s) else k)"

text \<open>Lowercase hexadecimal digits behind a \<^verbatim>\<open>0x\<close> prefix.\<close>

definition isLowerHexDigit :: "char \<Rightarrow> bool" where
  "isLowerHexDigit c \<longleftrightarrow> c \<in> set ''0123456789abcdef''"

definition lowercaseHex0x :: "string \<Rightarrow> bool" where
  "lowercaseHex0x s \<longleftrightarrow> take 2 s = ''0x'' \<and> list_all isLowerHexDigit (drop 2 s)"

text \<open>The shape of every error that leaves the \<^verbatim>\<open>catch\<close> clause of \<^verbatim>\<open>computeECDH\<close>.\<close>

definition wrappedAsECDHFailure :: "error \<Rightarrow> bool" where
  "wrappedAsECDHFailure e \<longleftrightarrow> take 25 (message e) = ''ECDH computation failed: ''"

text \<open>What one record adds to \<^verbatim>\<open>discovered\<close>, and the record echoed as a
  \<^verbatim>\<open>StealthAddress\<close>.\<close>

definition pushed ::
  "'s adapter \<Rightarrow> string \<Rightarrow> string \<Rightarrow> StealthMetadata \<Rightarrow> StealthAddress list"
where
  "pushed A viewingPriv viewingPub meta =
     (case scanRecord A viewingPriv viewingPub meta of
        Inr (Some found) \<Rightarrow> [found]
      | Inr None \<Rightarrow> []
      | Inl e \<Rightarrow> [])"

definition echoRecord :: "StealthMetadata \<Rightarrow> StealthAddress" where
  "echoRecord meta =
     \<lparr>sa_address = meta_stealthAddress meta,
      sa_ephemeralPublicKey = with0x (meta_ephemeralPublicKey meta),
      sa_viewTag = meta_viewTag meta\<rparr>"

section \<open>An executable instance of the libraries\<close>

text \<open>
  A small instance of the adapter, for evaluating the SDK at concrete inputs: private keys
  are non-zero 32-byte strings, the public key of a private key is the key behind a format
  byte, and the shared point is the bytewise exclusive or. An account address is the last
  40 hex digits of the private key with the letters in capitals. The instance has the five
  properties above; it is not secp256k1, and the general theorems do not depend on it.
\<close>

definition mixHash :: "byte list \<Rightarrow> byte list" where
  "mixHash bytes =
     take 32 (foldl (\<lambda>acc b. rotate1 ((3 * hd acc + b + 1) # map2 (+) (tl acc) (butlast acc)))
                (replicate 32 7) bytes @ replicate 32 0)"

definition upperHexChar :: "char \<Rightarrow> char" where
  "upperHexChar c = (case map_of (zip ''abcdef'' ''ABCDEF'') c of Some u \<Rightarrow> u | None \<Rightarrow> c)"

definition xorAdapter :: "int adapter" where
  "xorAdapter =
     \<lparr>getPublicKey = (\<lambda>priv isCompressed.
         if length priv = 32 \<and> priv \<noteq> replicate 32 0
         then Inr (if isCompressed then 2 # priv else 4 # priv @ replicate 32 0)
         else Inl (Error ''invalid private key'')),
      getSharedSecret = (\<lambda>priv pub isCompressed.
         if length priv \<noteq> 32 \<or> priv = replicate 32 0 then Inl (Error ''invalid private key'')
         else if (length pub = 33 \<and> (hd pub = 2 \<or> hd pub = 3)) \<or> (length pub = 65 \<and> hd pub = 4)
         then (let shared = map2 (XOR) priv (take 32 (tl pub))
               in Inr (if isCompressed then 2 # shared else 4 # shared @ replicate 32 0))
         else Inl (Error ''invalid public key'')),
      keccak_256 = mixHash,
      accountAddress = (\<lambda>pk.
         if length pk = 66 \<and> pk \<noteq> ''0x'' @ replicate 64 (CHR ''0'')
         then Inr (''0x'' @ map upperHexChar (drop 26 pk))
         else Inl (Error ''invalid private key'')),
      randomPrivateKey = (\<lambda>n. (replicate 31 (word_of_int (17 * n + 1)) @ [word_of_int (n + 1)], n + 1)),
      viemVersion = ''2.21.0''\<rparr>"

text \<open>The keys this instance generates from state 0, and the stealth address it generates
  for them from state 2.\<close>

definition demoKeys :: StealthKeys where
  "demoKeys =
     \<lparr>sk_spendingPrivateKey = ''0x0101010101010101010101010101010101010101010101010101010101010101'',
      sk_viewingPrivateKey = ''0x1212121212121212121212121212121212121212121212121212121212121202'',
      sk_spendingPublicKey = ''0x020101010101010101010101010101010101010101010101010101010101010101'',
      sk_viewingPublicKey = ''0x021212121212121212121212121212121212121212121212121212121212121202''\<rparr>"

definition demoStealth :: StealthAddress where
  "demoStealth =
     \<lparr>sa_address = ''0x22858A51F67D4EFD5E6DCE65965D468DD65DEE69'',
      sa_ephemeralPublicKey = ''0x022323232323232323232323232323232323232323232323232323232323232303'',
      sa_viewTag = ''76''\<rparr>"

text \<open>The values on the way: the sender's ephemeral private key (drawn at state 2), the
  shared secret and the one-time private key.\<close>

definition demoEphemeralPrivateKey :: string where
  "demoEphemeralPrivateKey = ''0x2323232323232323232323232323232323232323232323232323232323232303''"

definition demoSharedSecret :: string where
  "demoSharedSecret = ''0x76f896086678c6302ed84e08fed85e3422e882d832685260ba481a18ea480a20''"

definition demoStealthPrivateKey :: string where
  "demoStealthPrivateKey = ''0x68c93285aae5fa3d02a5b23522858a51f67d4efd5e6dce65965d468dd65dee69''"

text \<open>
  More records for the scanner: the demo payment as a store might hold it (address in
  lowercase, ephemeral key without prefix, view tag with prefix), a payment of another
  sender to another receiver, a record with the ephemeral key and the view tag of the demo
  payment that claims another address, and a record without ephemeral key.
\<close>

definition demoStoredRecord :: StealthMetadata where
  "demoStoredRecord =
     \<lparr>meta_stealthAddress = ''0x22858a51f67d4efd5e6dce65965d468dd65dee69'',
      meta_ephemeralPublicKey = ''022323232323232323232323232323232323232323232323232323232323232303'',
      meta_viewTag = ''0x76'',
      meta_network = ''eth'',
      meta_createdAt = 0\<rparr>"

definition demoOtherRecord :: StealthMetadata where
  "demoOtherRecord =
     \<lparr>meta_stealthAddress = ''0x5E6DCE65965D468DD65DEE6922858A51F67D4EFD'',
      meta_ephemeralPublicKey = ''0x023434343434343434343434343434343434343434343434343434343434343404'',
      meta_viewTag = ''c1'',
      meta_network = ''eth'',
      meta_createdAt = 0\<rparr>"

definition demoTagOnlyRecord :: StealthMetadata where
  "demoTagOnlyRecord =
     \<lparr>meta_stealthAddress = ''0x5E6DCE65965D468DD65DEE6922858A51F67D4EFD'',
      meta_ephemeralPublicKey = ''0x022323232323232323232323232323232323232323232323232323232323232303'',
      meta_viewTag = ''76'',
      meta_network = ''eth'',
      meta_createdAt = 0\<rparr>"

definition demoMalformedRecord :: StealthMetadata where
  "demoMalformedRecord =
     \<lparr>meta_stealthAddress = ''0x22858A51F67D4EFD5E6DCE65965D468DD65DEE69'',
      meta_ephemeralPublicKey = [],
      meta_viewTag = ''76'',
      meta_network = ''eth'',
      meta_createdAt = 0\<rparr>"

text \<open>The bytes of the demo viewing private key.\<close>

definition demoScalarBytes :: "byte list" where
  "demoScalarBytes = replicate 31 0x12 @ [0x02]"

section \<open>The hex codec round trip\<close>

lemma lt16_cases: "n < 16 \<Longrightarrow> n \<in> {0,1,2,3,4,5,6,7,8,9,10,11,12,13,14,15::nat}"
  by simp arith

lemma hexDigitValue_hexChar: "n < 16 \<Longrightarrow> hexDigitValue (hexChar n) = Some n"
  by (drule lt16_cases) (auto simp: hexDigitValue_def hexChar_def)

lemma hexChar_not_special:
  "n < 16 \<Longrightarrow> \<not> isWhiteSpace (hexChar n) \<and> hexChar n \<noteq> CHR ''-'' \<and> hexChar n \<noteq> CHR ''+''
     \<and> hexChar n \<noteq> CHR ''x'' \<and> hexChar n \<noteq> CHR ''X''"
  by (drule lt16_cases) (auto simp: isWhiteSpace_def hexChar_def)

lemma toLowerChar_hexChar: "n < 16 \<Longrightarrow> toLowerChar (hexChar n) = hexChar n"
  by (drule lt16_cases) (auto simp: toLowerChar_def hexChar_def)

lemma parseInt16_hexChars:
  assumes "a < 16" "b < 16"
  shows "parseInt16 [hexChar a, hexChar b] = Some (int (16 * a + b))"
  using hexChar_not_special[OF assms(1)] hexChar_not_special[OF assms(2)]
    hexDigitValue_hexChar[OF assms(1)] hexDigitValue_hexChar[OF assms(2)]
  by (simp add: parseInt16_def)

lemma toUint8_byteToHex: "toUint8 (parseInt16 (byteToHex b)) = b"
proof -
  have a: "unat b div 16 < 16" using unsigned_less[of b, where ?'a = nat] by simp
  have c: "unat b mod 16 < 16" by simp
  have "16 * (unat b div 16) + unat b mod 16 = unat b" by simp
  then show ?thesis
    unfolding byteToHex_def parseInt16_hexChars[OF a c]
    by (simp add: toUint8_def)
qed

lemma parsePairs_byteToHex: "parsePairs (byteToHex b @ rest) = b # parsePairs rest"
  using toUint8_byteToHex[of b] by (simp add: byteToHex_def)

lemma parsePairs_concat: "parsePairs (concat (map byteToHex bs)) = bs"
  by (induction bs) (simp_all add: parsePairs_byteToHex)

lemma startsWith0x_prefix [simp]: "startsWith0x (CHR ''0'' # CHR ''x'' # s)"
  by (simp add: startsWith0x_def)

lemma hexToUint8Array_uint8ArrayToHex: "hexToUint8Array (uint8ArrayToHex bs) = bs"
  by (simp add: hexToUint8Array_def uint8ArrayToHex_def parsePairs_concat)

lemma length_concat_byteToHex: "length (concat (map byteToHex bs)) = 2 * length bs"
  by (induction bs) (simp_all add: byteToHex_def)

lemma length_uint8ArrayToHex: "length (uint8ArrayToHex bs) = 2 + 2 * length bs"
  by (simp add: uint8ArrayToHex_def length_concat_byteToHex)

lemma toHex_eq: "toHex bs = uint8ArrayToHex bs"
  by (simp add: toHex_def uint8ArrayToHex_def)

lemma nibblePairs_byteToHex:
  "nibblePairs v w (byteToHex b @ rest) =
     (case nibblePairs v w rest of Inl e \<Rightarrow> Inl e | Inr bytes \<Rightarrow> Inr (b # bytes))"
proof -
  have a: "unat b div 16 < 16" using unsigned_less[of b, where ?'a = nat] by simp
  have c: "unat b mod 16 < 16" by simp
  have "unat b div 16 * 16 + unat b mod 16 = unat b" by simp
  then have w: "(word_of_nat (unat b div 16 * 16 + unat b mod 16) :: byte) = b" by simp
  show ?thesis
    by (simp add: byteToHex_def hexDigitValue_hexChar[OF a] hexDigitValue_hexChar[OF c] w
             split: sum.splits)
qed

lemma nibblePairs_concat: "nibblePairs v w (concat (map byteToHex bs)) = Inr bs"
  by (induction bs) (simp_all add: nibblePairs_byteToHex)

lemma hexToBytes_uint8ArrayToHex: "hexToBytes v (uint8ArrayToHex bs) = Inr bs"
  by (simp add: hexToBytes_def uint8ArrayToHex_def length_concat_byteToHex nibblePairs_concat)

section \<open>The shared secret\<close>

lemma keccak256_uint8ArrayToHex: "keccak256 A (uint8ArrayToHex bs) = Inr (toHex (keccak_256 A bs))"
  by (simp add: keccak256_def hexToBytes_uint8ArrayToHex)

lemma length_with0x_ge2: "2 \<le> length (with0x s)"
  by (cases s rule: list.exhaust; cases "tl s") (auto simp: with0x_def startsWith0x_def)

lemma hexToUint8Array_with0x: "hexToUint8Array (with0x s) = hexToUint8Array s"
  by (simp add: with0x_def hexToUint8Array_def)

lemma computeECDH_try_unfold:
  "computeECDH_try A privateKey publicKey =
     (if privateKey = [] \<or> publicKey = [] then Inl (Error ''Missing private or public key'')
      else if length (with0x privateKey) \<noteq> 66
      then Inl (Error (''Invalid private key length: '' @ string_of_nat (length (with0x privateKey))
                       @ '', expected 66''))
      else if length (with0x publicKey) \<noteq> 68 \<and> length (with0x publicKey) \<noteq> 132
      then Inl (Error (''Invalid public key length: '' @ string_of_nat (length (with0x publicKey))
                       @ '', expected 68 or 132''))
      else (case getSharedSecret A (hexToUint8Array privateKey) (hexToUint8Array publicKey) True of
              Inl e \<Rightarrow> Inl e
            | Inr sharedPoint \<Rightarrow> Inr (toHex (keccak_256 A sharedPoint))))"
proof -
  have a: "length (with0x publicKey) - 2 \<noteq> 66 \<longleftrightarrow> length (with0x publicKey) \<noteq> 68"
    using length_with0x_ge2[of publicKey] by arith
  have b: "length (with0x publicKey) - 2 \<noteq> 130 \<longleftrightarrow> length (with0x publicKey) \<noteq> 132"
    using length_with0x_ge2[of publicKey] by arith
  show ?thesis
    unfolding computeECDH_try_def Let_def with0x_def[symmetric] a b
      hexToUint8Array_with0x keccak256_uint8ArrayToHex
    by (rule refl)
qed

lemma computeECDH_Inr:
  assumes "computeECDH A privateKey publicKey = Inr secret"
  shows "privateKey \<noteq> [] \<and> publicKey \<noteq> [] \<and> length (with0x privateKey) = 66
         \<and> (length (with0x publicKey) = 68 \<or> length (with0x publicKey) = 132)
         \<and> (\<exists>sharedPoint.
               getSharedSecret A (hexToUint8Array privateKey) (hexToUint8Array publicKey) True
                 = Inr sharedPoint
               \<and> secret = toHex (keccak_256 A sharedPoint))"
  using assms unfolding computeECDH_def computeECDH_try_unfold
  by (auto split: if_splits sum.splits)

lemma with0x_uint8ArrayToHex: "with0x (uint8ArrayToHex bs) = uint8ArrayToHex bs"
  by (simp add: with0x_def uint8ArrayToHex_def)

lemma computeECDH_ok:
  assumes "length (with0x privateKey) = 66"
    and "publicKey = uint8ArrayToHex pubBytes"
    and "length pubBytes = 33 \<or> length pubBytes = 65"
    and "getSharedSecret A (hexToUint8Array privateKey) pubBytes True = Inr sharedPoint"
  shows "computeECDH A privateKey publicKey = Inr (toHex (keccak_256 A sharedPoint))"
proof -
  have p: "privateKey \<noteq> []" using assms(1) by (auto simp: with0x_def startsWith0x_def)
  have q: "publicKey \<noteq> []" using assms(2) by (simp add: uint8ArrayToHex_def)
  have l: "length publicKey = 68 \<or> length publicKey = 132"
    using assms(2,3) by (auto simp: length_uint8ArrayToHex)
  show ?thesis
    unfolding computeECDH_def computeECDH_try_unfold using p q l assms(1,4)
    by (auto simp: assms(2) with0x_uint8ArrayToHex hexToUint8Array_uint8ArrayToHex)
qed

lemma derivePublicKey_Inr:
  "derivePublicKey A privateKey = Inr pub \<Longrightarrow>
     \<exists>pubBytes. getPublicKey A (hexToUint8Array privateKey) True = Inr pubBytes
                \<and> pub = uint8ArrayToHex pubBytes"
  by (auto simp: derivePublicKey_def split: sum.splits)

lemma ecdh_core:
  assumes "ecdhSymmetric A" and "publicKeyLengths A"
    and "length (with0x a) = 66" and "length (with0x b) = 66"
    and "derivePublicKey A a = Inr pubA" and "derivePublicKey A b = Inr pubB"
  shows "computeECDH A a pubB = computeECDH A b pubA
         \<and> (\<exists>secret. computeECDH A a pubB = Inr secret)"
proof -
  obtain bytesA where A1: "getPublicKey A (hexToUint8Array a) True = Inr bytesA"
    and A2: "pubA = uint8ArrayToHex bytesA"
    using derivePublicKey_Inr[OF assms(5)] by blast
  obtain bytesB where B1: "getPublicKey A (hexToUint8Array b) True = Inr bytesB"
    and B2: "pubB = uint8ArrayToHex bytesB"
    using derivePublicKey_Inr[OF assms(6)] by blast
  have lenA: "length bytesA = 33" and lenB: "length bytesB = 33"
    using assms(2) A1 B1 unfolding publicKeyLengths_def by force+
  obtain shared where S1: "getSharedSecret A (hexToUint8Array a) bytesB True = Inr shared"
    and S2: "getSharedSecret A (hexToUint8Array b) bytesA True = Inr shared"
    using assms(1) A1 B1 unfolding ecdhSymmetric_def by blast
  have "computeECDH A a pubB = Inr (toHex (keccak_256 A shared))"
    using computeECDH_ok[OF assms(3) B2 _ S1] lenB by simp
  moreover have "computeECDH A b pubA = Inr (toHex (keccak_256 A shared))"
    using computeECDH_ok[OF assms(4) A2 _ S2] lenA by simp
  ultimately show ?thesis by simp
qed

text \<open>
  Claim C2. For two private keys \<open>a\<close> and \<open>b\<close> of 32 bytes of hex text that the library
  accepts, with public keys \<open>pubA\<close> and \<open>pubB\<close> from \<^verbatim>\<open>derivePublicKey\<close>, the secret
  \<^verbatim>\<open>computeECDH(a, pubB)\<close> is the same string as \<^verbatim>\<open>computeECDH(b, pubA)\<close>, and both calls
  return. The symmetry of the curve's own shared point is the hypothesis \<open>ecdhSymmetric\<close>.
\<close>

theorem ecdh_symmetry:
  assumes "ecdhSymmetric A" and "publicKeyLengths A"
    and "length (with0x a) = 66" and "length (with0x b) = 66"
    and "derivePublicKey A a = Inr pubA" and "derivePublicKey A b = Inr pubB"
  shows "computeECDH A a pubB = computeECDH A b pubA
         \<and> (\<exists>secret. computeECDH A a pubB = Inr secret)"
  using assms by (rule ecdh_core)

text \<open>
  Claim C8. For a private key \<open>s\<close> that the library accepts and the public key of any
  accepted private key \<open>p\<close> (on a curve of prime order every valid point is one),
  \<^verbatim>\<open>computeECDH\<close> returns the same secret for the hex text of the 33-byte compressed encoding
  and for the hex text of the 65-byte uncompressed encoding, and it does return one. The
  library's part, that it reads both encodings as the same point, is the hypothesis
  \<open>encodingsAgree\<close>; the SDK's part is that both lengths pass its check and that its hex
  decoding gives the library the bytes unchanged.
\<close>

theorem point_encoding_normalization:
  assumes "publicKeyLengths A" and "ecdhSymmetric A" and "encodingsAgree A"
    and "length (with0x s) = 66" and "derivePublicKey A s = Inr pubS"
    and "getPublicKey A p True = Inr compressed"
    and "getPublicKey A p False = Inr uncompressed"
  shows "length compressed = 33 \<and> length uncompressed = 65
         \<and> computeECDH A s (uint8ArrayToHex compressed)
             = computeECDH A s (uint8ArrayToHex uncompressed)
         \<and> (\<exists>secret. computeECDH A s (uint8ArrayToHex compressed) = Inr secret)"
proof -
  have lenC: "length compressed = 33" and lenU: "length uncompressed = 65"
    using assms(1,6,7) unfolding publicKeyLengths_def by force+
  obtain bytesS where S1: "getPublicKey A (hexToUint8Array s) True = Inr bytesS"
    using derivePublicKey_Inr[OF assms(5)] by blast
  obtain shared where C1: "getSharedSecret A (hexToUint8Array s) compressed True = Inr shared"
    using assms(2) S1 assms(6) unfolding ecdhSymmetric_def by blast
  have "getSharedSecret A (hexToUint8Array s) uncompressed True
          = getSharedSecret A (hexToUint8Array s) compressed True"
    using assms(3,6,7) unfolding encodingsAgree_def by force
  then have U1: "getSharedSecret A (hexToUint8Array s) uncompressed True = Inr shared"
    using C1 by simp
  have "computeECDH A s (uint8ArrayToHex compressed) = Inr (toHex (keccak_256 A shared))"
    using computeECDH_ok[OF assms(4) refl _ C1] lenC by simp
  moreover have "computeECDH A s (uint8ArrayToHex uncompressed) = Inr (toHex (keccak_256 A shared))"
    using computeECDH_ok[OF assms(4) refl _ U1] lenU by simp
  ultimately show ?thesis using lenC lenU by simp
qed

text \<open>
  Claim C5, as the code has it. \<^verbatim>\<open>computeECDH\<close> fails whenever the private key, with its
  \<^verbatim>\<open>0x\<close> prefix, is not 66 characters long or the public key is neither 68 nor 132
  characters long (32 bytes, and 33 or 65 bytes, of hex text). The length checks sit inside
  the \<^verbatim>\<open>try\<close> block, so their errors leave the function through the same \<^verbatim>\<open>catch\<close> clause as
  the errors of the curve library: each is an \<^verbatim>\<open>Error\<close> whose message is
  \<^verbatim>\<open>ECDH computation failed: \<close> followed by the inner message, which names the length for a
  length error and is the library's own message for a library error. Every error of
  \<^verbatim>\<open>computeECDH\<close> has this one shape; there is no error kind of its own for a wrong length.
\<close>

theorem computeECDH_length_errors_wrapped:
  "(privateKey = [] \<or> publicKey = [] \<longrightarrow>
      computeECDH A privateKey publicKey
        = Inl (Error ''ECDH computation failed: Missing private or public key''))
   \<and> (privateKey \<noteq> [] \<and> publicKey \<noteq> [] \<and> length (with0x privateKey) \<noteq> 66 \<longrightarrow>
      computeECDH A privateKey publicKey
        = Inl (Error (''ECDH computation failed: Invalid private key length: ''
                      @ string_of_nat (length (with0x privateKey)) @ '', expected 66'')))
   \<and> (privateKey \<noteq> [] \<and> publicKey \<noteq> [] \<and> length (with0x privateKey) = 66
       \<and> length (with0x publicKey) \<noteq> 68 \<and> length (with0x publicKey) \<noteq> 132 \<longrightarrow>
      computeECDH A privateKey publicKey
        = Inl (Error (''ECDH computation failed: Invalid public key length: ''
                      @ string_of_nat (length (with0x publicKey)) @ '', expected 68 or 132'')))
   \<and> (\<forall>e. getSharedSecret A (hexToUint8Array privateKey) (hexToUint8Array publicKey) True = Inl e
          \<and> privateKey \<noteq> [] \<and> publicKey \<noteq> [] \<and> length (with0x privateKey) = 66
          \<and> (length (with0x publicKey) = 68 \<or> length (with0x publicKey) = 132) \<longrightarrow>
      computeECDH A privateKey publicKey
        = Inl (Error (''ECDH computation failed: '' @ messageOrString e)))
   \<and> (\<forall>e. computeECDH A privateKey publicKey = Inl e \<longrightarrow> wrappedAsECDHFailure e)"
proof -
  have wrapped: "wrappedAsECDHFailure e" if "computeECDH A privateKey publicKey = Inl e" for e
    using that unfolding computeECDH_def
    by (auto simp: wrappedAsECDHFailure_def split: sum.splits)
  show ?thesis
    unfolding computeECDH_def computeECDH_try_unfold
    using wrapped[unfolded computeECDH_def computeECDH_try_unfold]
    by (auto simp: messageOrString_def)
qed

section \<open>The scanner, spend-key recovery and the unused parameters\<close>

lemma scanLoop_concat:
  "scanLoop A viewingPriv viewingPub metas discovered
     = discovered @ concat (map (pushed A viewingPriv viewingPub) metas)"
proof (induction metas arbitrary: discovered)
  case Nil
  then show ?case by simp
next
  case (Cons meta rest)
  show ?case
    by (simp add: Cons.IH pushed_def split: sum.splits option.splits)
qed

lemma scanStealthAddresses_concat:
  "scanStealthAddresses A viewingPrivateKey viewingPublicKey metas =
     (if viewingPrivateKey = [] \<or> viewingPublicKey = [] then Inl (Error ''Missing viewing keys'')
      else Inr (concat (map (pushed A (with0x viewingPrivateKey) (with0x viewingPublicKey)) metas)))"
  by (simp add: scanStealthAddresses_def scanLoop_concat with0x_def)

lemma scanRecord_Some:
  assumes "scanRecord A viewingPriv viewingPub meta = Inr (Some found)"
  shows "found = echoRecord meta
         \<and> meta_stealthAddress meta \<noteq> [] \<and> meta_ephemeralPublicKey meta \<noteq> []
         \<and> meta_viewTag meta \<noteq> []
         \<and> (\<exists>sharedSecret stealthPrivateKey derivedAddress.
               computeECDH A viewingPriv (with0x (meta_ephemeralPublicKey meta)) = Inr sharedSecret
               \<and> toLowerCase (slice 2 4 sharedSecret)
                   = replaceLeading0x (toLowerCase (meta_viewTag meta))
               \<and> stealthPrivateKeyOf A sharedSecret viewingPub = Inr stealthPrivateKey
               \<and> accountAddress A stealthPrivateKey = Inr derivedAddress
               \<and> toLowerCase derivedAddress = toLowerCase (meta_stealthAddress meta))"
  using assms unfolding scanRecord_def Let_def with0x_def[symmetric] echoRecord_def
  by (auto split: if_splits sum.splits)

lemma pushed_cases:
  "pushed A viewingPriv viewingPub meta = [] \<or>
   (pushed A viewingPriv viewingPub meta = [echoRecord meta]
    \<and> scanRecord A viewingPriv viewingPub meta = Inr (Some (echoRecord meta)))"
  using scanRecord_Some[of A viewingPriv viewingPub meta]
  by (auto simp: pushed_def split: sum.splits option.splits)

lemma concat_pushed_filter:
  "concat (map (pushed A viewingPriv viewingPub) metas)
     = map echoRecord (filter (\<lambda>meta. pushed A viewingPriv viewingPub meta \<noteq> []) metas)"
proof (induction metas)
  case Nil
  then show ?case by simp
next
  case (Cons meta rest)
  then show ?case using pushed_cases[of A viewingPriv viewingPub meta] by auto
qed

text \<open>
  Claim C10. The result of \<^verbatim>\<open>scanStealthAddresses\<close> is, in the order of the input, the echo
  of every record that matched: the record's stored \<^verbatim>\<open>stealthAddress\<close> and \<^verbatim>\<open>viewTag\<close>
  strings as they are, and its \<^verbatim>\<open>ephemeralPublicKey\<close> with \<^verbatim>\<open>0x\<close> put in front when it was
  missing. The freshly derived address is compared and then dropped.
\<close>

theorem scan_echoes_record_fields:
  assumes "scanStealthAddresses A viewingPrivateKey viewingPublicKey metas = Inr found"
  shows "found = map echoRecord
           (filter (\<lambda>meta. pushed A (with0x viewingPrivateKey) (with0x viewingPublicKey) meta \<noteq> [])
              metas)"
  using assms unfolding scanStealthAddresses_concat concat_pushed_filter
  by (auto split: if_splits)

text \<open>
  Claim C3. Every \<^verbatim>\<open>StealthAddress\<close> in the result of \<^verbatim>\<open>scanStealthAddresses\<close> is the echo of a
  record of the input for which the whole derivation went through: the shared secret was
  computed, the one-time private key and its account address were derived from it, and
  that address equals the record's claimed address after lowercasing both. And a record
  whose view tag matches the shared secret while no such derived address matches its
  claimed address is not in the result.
\<close>

theorem view_tag_filter_soundness:
  assumes "scanStealthAddresses A viewingPrivateKey viewingPublicKey metas = Inr found"
  shows "(\<forall>r \<in> set found.
            \<exists>meta sharedSecret stealthPrivateKey derivedAddress.
              meta \<in> set metas \<and> r = echoRecord meta
              \<and> computeECDH A (with0x viewingPrivateKey) (with0x (meta_ephemeralPublicKey meta))
                  = Inr sharedSecret
              \<and> stealthPrivateKeyOf A sharedSecret (with0x viewingPublicKey) = Inr stealthPrivateKey
              \<and> accountAddress A stealthPrivateKey = Inr derivedAddress
              \<and> toLowerCase derivedAddress = toLowerCase (meta_stealthAddress meta))
       \<and> (\<forall>meta sharedSecret.
            computeECDH A (with0x viewingPrivateKey) (with0x (meta_ephemeralPublicKey meta))
              = Inr sharedSecret
            \<and> toLowerCase (slice 2 4 sharedSecret) = replaceLeading0x (toLowerCase (meta_viewTag meta))
            \<and> \<not> (\<exists>stealthPrivateKey derivedAddress.
                    stealthPrivateKeyOf A sharedSecret (with0x viewingPublicKey) = Inr stealthPrivateKey
                    \<and> accountAddress A stealthPrivateKey = Inr derivedAddress
                    \<and> toLowerCase derivedAddress = toLowerCase (meta_stealthAddress meta))
            \<longrightarrow> echoRecord meta \<notin> set found)"
proof -
  let ?vp = "with0x viewingPrivateKey" and ?vP = "with0x viewingPublicKey"
  have found: "found = concat (map (pushed A ?vp ?vP) metas)"
    using assms unfolding scanStealthAddresses_concat by (auto split: if_splits)
  have sound: "\<exists>meta sharedSecret stealthPrivateKey derivedAddress.
              meta \<in> set metas \<and> r = echoRecord meta
              \<and> computeECDH A ?vp (with0x (meta_ephemeralPublicKey meta)) = Inr sharedSecret
              \<and> stealthPrivateKeyOf A sharedSecret ?vP = Inr stealthPrivateKey
              \<and> accountAddress A stealthPrivateKey = Inr derivedAddress
              \<and> toLowerCase derivedAddress = toLowerCase (meta_stealthAddress meta)"
    if r: "r \<in> set found" for r
  proof -
    obtain meta where m: "meta \<in> set metas" and p: "r \<in> set (pushed A ?vp ?vP meta)"
      using r found by auto
    then have "scanRecord A ?vp ?vP meta = Inr (Some r)"
      by (auto simp: pushed_def split: sum.splits option.splits)
    from scanRecord_Some[OF this] m show ?thesis by blast
  qed
  have tagOnly: "echoRecord meta \<notin> set found"
    if ecdh: "computeECDH A ?vp (with0x (meta_ephemeralPublicKey meta)) = Inr sharedSecret"
      and no: "\<not> (\<exists>stealthPrivateKey derivedAddress.
                    stealthPrivateKeyOf A sharedSecret ?vP = Inr stealthPrivateKey
                    \<and> accountAddress A stealthPrivateKey = Inr derivedAddress
                    \<and> toLowerCase derivedAddress = toLowerCase (meta_stealthAddress meta))"
    for meta sharedSecret
  proof
    assume "echoRecord meta \<in> set found"
    from sound[OF this] obtain meta' sharedSecret' stealthPrivateKey derivedAddress where
      e: "echoRecord meta = echoRecord meta'"
      and c: "computeECDH A ?vp (with0x (meta_ephemeralPublicKey meta')) = Inr sharedSecret'"
      and k: "stealthPrivateKeyOf A sharedSecret' ?vP = Inr stealthPrivateKey"
      and a: "accountAddress A stealthPrivateKey = Inr derivedAddress"
      and l: "toLowerCase derivedAddress = toLowerCase (meta_stealthAddress meta')"
      by blast
    from e have "with0x (meta_ephemeralPublicKey meta') = with0x (meta_ephemeralPublicKey meta)"
      and "meta_stealthAddress meta' = meta_stealthAddress meta"
      by (simp_all add: echoRecord_def)
    with c k a l ecdh no show False by auto
  qed
  show ?thesis using sound tagOnly by blast
qed

text \<open>
  Claim C6. With both viewing keys present, \<^verbatim>\<open>scanStealthAddresses\<close> returns a list for every
  list of records and never an error. A record with an empty field, or one on which the
  body of the loop throws, changes nothing: the scan of the list with that record is the
  scan of the list without it. In particular a record without ephemeral key, followed by a
  matching record and a record that does not match, yields exactly the one hit.
\<close>

theorem scanner_error_isolation:
  assumes "viewingPrivateKey \<noteq> []" and "viewingPublicKey \<noteq> []"
  shows "(\<exists>found. scanStealthAddresses A viewingPrivateKey viewingPublicKey metas = Inr found)
       \<and> (\<forall>before skipped after.
             (meta_stealthAddress skipped = [] \<or> meta_ephemeralPublicKey skipped = []
              \<or> meta_viewTag skipped = []
              \<or> isl (scanRecord A (with0x viewingPrivateKey) (with0x viewingPublicKey) skipped))
             \<longrightarrow> scanStealthAddresses A viewingPrivateKey viewingPublicKey (before @ skipped # after)
                 = scanStealthAddresses A viewingPrivateKey viewingPublicKey (before @ after))
       \<and> (\<forall>malformed matching other hit.
             meta_ephemeralPublicKey malformed = []
             \<and> scanRecord A (with0x viewingPrivateKey) (with0x viewingPublicKey) matching
                 = Inr (Some hit)
             \<and> scanRecord A (with0x viewingPrivateKey) (with0x viewingPublicKey) other
                 \<noteq> Inr (Some (echoRecord other))
             \<longrightarrow> scanStealthAddresses A viewingPrivateKey viewingPublicKey
                   [malformed, matching, other] = Inr [hit])"
proof -
  have skip: "pushed A vp vP m = []"
    if "meta_stealthAddress m = [] \<or> meta_ephemeralPublicKey m = [] \<or> meta_viewTag m = []
        \<or> isl (scanRecord A vp vP m)" for vp vP m
    using that pushed_cases[of A vp vP m] scanRecord_Some[of A vp vP m "echoRecord m"] by auto
  have other: "pushed A vp vP m = []"
    if "scanRecord A vp vP m \<noteq> Inr (Some (echoRecord m))" for vp vP m
    using that pushed_cases[of A vp vP m] by auto
  show ?thesis
    using assms unfolding scanStealthAddresses_concat
    by (auto simp: skip other) (simp add: pushed_def)
qed

text \<open>
  Claim C4. When \<^verbatim>\<open>deriveStealthSpendingKey\<close> returns a key, the account address of that key
  equals the supplied \<^verbatim>\<open>stealthAddress\<close> after lowercasing both. When the shared secret, the
  viewing public key, the one-time private key and its account address were all computed
  and that address differs from the supplied one after lowercasing, the function fails with
  the error \<^verbatim>\<open>Derived address mismatch!\<close>.
\<close>

theorem spend_key_self_verification:
  "(\<forall>key. deriveStealthSpendingKey A spendingPrivateKey viewingPrivateKey stealthAddress
             ephemeralPublicKey viewingPublicKey = Inr key
       \<longrightarrow> (\<exists>derivedAddress. accountAddress A key = Inr derivedAddress
              \<and> toLowerCase derivedAddress = toLowerCase stealthAddress))
   \<and> (\<forall>sharedSecret viewingPub key derivedAddress.
         computeECDH A viewingPrivateKey ephemeralPublicKey = Inr sharedSecret
         \<and> (case viewingPublicKey of
               None \<Rightarrow> derivePublicKey A viewingPrivateKey
             | Some k \<Rightarrow> if k = [] then derivePublicKey A viewingPrivateKey else Inr k) = Inr viewingPub
         \<and> stealthPrivateKeyOf A sharedSecret viewingPub = Inr key
         \<and> accountAddress A key = Inr derivedAddress
         \<and> toLowerCase derivedAddress \<noteq> toLowerCase stealthAddress
       \<longrightarrow> deriveStealthSpendingKey A spendingPrivateKey viewingPrivateKey stealthAddress
             ephemeralPublicKey viewingPublicKey = Inl (Error ''Derived address mismatch!''))"
  unfolding deriveStealthSpendingKey_def
  by (auto split: sum.splits option.splits if_splits)

text \<open>
  Claim C7. \<^verbatim>\<open>generateStealthAddress\<close> returns the same result (and leaves the random source
  in the same state) for any two values of \<^verbatim>\<open>spendingPublicKey\<close>, and
  \<^verbatim>\<open>deriveStealthSpendingKey\<close> returns the same result for any two values of
  \<^verbatim>\<open>spendingPrivateKey\<close>, the other arguments being equal.
\<close>

theorem spending_key_noninterference:
  "generateStealthAddress A viewingPublicKey spendingPublicKey1 ephemeralPrivateKey s
     = generateStealthAddress A viewingPublicKey spendingPublicKey2 ephemeralPrivateKey s
   \<and> deriveStealthSpendingKey A spendingPrivateKey1 viewingPrivateKey stealthAddress
        ephemeralPublicKey viewingPublicKeyOpt
     = deriveStealthSpendingKey A spendingPrivateKey2 viewingPrivateKey stealthAddress
        ephemeralPublicKey viewingPublicKeyOpt"
  by (simp add: generateStealthAddress_def deriveStealthSpendingKey_def)

section \<open>From generation to scan\<close>

lemma hexToUint8Array_toHex: "hexToUint8Array (toHex bs) = bs"
  by (simp add: toHex_eq hexToUint8Array_uint8ArrayToHex)

lemma generateStealthKeys_Inr:
  assumes "generateStealthKeys A s0 = (Inr K, s2)"
  shows "\<exists>spendBytes viewBytes spendPub viewPub.
           sk_spendingPrivateKey K = toHex spendBytes
           \<and> sk_viewingPrivateKey K = toHex viewBytes
           \<and> getPublicKey A spendBytes True = Inr spendPub
           \<and> getPublicKey A viewBytes True = Inr viewPub
           \<and> sk_spendingPublicKey K = uint8ArrayToHex spendPub
           \<and> sk_viewingPublicKey K = uint8ArrayToHex viewPub"
  using assms
  unfolding generateStealthKeys_def generatePrivateKey_def derivePublicKey_def Let_def
  by (fastforce simp: hexToUint8Array_toHex split: prod.splits sum.splits)

lemma generateStealthAddress_Inr:
  assumes "generateStealthAddress A viewingPublicKey spendingPublicKey ephemeralPrivateKey s
             = (Inr S, s')"
  shows "\<exists>ephemeralKey sharedSecret stealthPrivateKey.
           derivePublicKey A ephemeralKey = Inr (sa_ephemeralPublicKey S)
           \<and> computeECDH A ephemeralKey (with0x viewingPublicKey) = Inr sharedSecret
           \<and> stealthPrivateKeyOf A sharedSecret (with0x viewingPublicKey) = Inr stealthPrivateKey
           \<and> accountAddress A stealthPrivateKey = Inr (sa_address S)
           \<and> sa_viewTag S = toLowerCase (slice 2 4 sharedSecret)"
  using assms
  unfolding generateStealthAddress_def Let_def with0x_def[symmetric]
  by (auto split: if_splits prod.splits sum.splits)

lemma toLowerCase_byteToHex: "toLowerCase (byteToHex b) = byteToHex b"
proof -
  have a: "unat b div 16 < 16" using unsigned_less[of b, where ?'a = nat] by simp
  have c: "unat b mod 16 < 16" by simp
  show ?thesis
    by (simp add: toLowerCase_def byteToHex_def toLowerChar_hexChar[OF a] toLowerChar_hexChar[OF c])
qed

lemma replaceLeading0x_byteToHex: "replaceLeading0x (byteToHex b) = byteToHex b"
proof -
  have c: "unat b mod 16 < 16" by simp
  show ?thesis
    using hexChar_not_special[OF c]
    by (simp add: replaceLeading0x_def startsWith0x_def byteToHex_def)
qed

lemma slice_toHex: "slice 2 4 (toHex (h # t)) = byteToHex h"
  by (simp add: slice_def toHex_def byteToHex_def)

lemma viewTag_of_hash:
  assumes "hashLength A"
  shows "\<exists>h. toLowerCase (slice 2 4 (toHex (keccak_256 A sharedPoint))) = byteToHex h"
proof -
  have "length (keccak_256 A sharedPoint) = 32" using assms by (simp add: hashLength_def)
  then obtain h t where "keccak_256 A sharedPoint = h # t"
    by (cases "keccak_256 A sharedPoint") auto
  then show ?thesis by (auto simp: slice_toHex toLowerCase_byteToHex)
qed

lemma byteToHex_nonempty: "byteToHex h \<noteq> []"
  by (simp add: byteToHex_def)

lemma scanRecord_match:
  assumes "meta_stealthAddress meta \<noteq> []" and "meta_ephemeralPublicKey meta \<noteq> []"
    and "meta_viewTag meta \<noteq> []"
    and "computeECDH A viewingPriv (with0x (meta_ephemeralPublicKey meta)) = Inr sharedSecret"
    and "toLowerCase (slice 2 4 sharedSecret) = replaceLeading0x (toLowerCase (meta_viewTag meta))"
    and "stealthPrivateKeyOf A sharedSecret viewingPub = Inr stealthPrivateKey"
    and "accountAddress A stealthPrivateKey = Inr derivedAddress"
    and "toLowerCase derivedAddress = toLowerCase (meta_stealthAddress meta)"
  shows "scanRecord A viewingPriv viewingPub meta = Inr (Some (echoRecord meta))"
  using assms unfolding scanRecord_def Let_def with0x_def[symmetric] echoRecord_def
  by simp

lemma roundtrip_record:
  assumes "publicKeyLengths A" and "ecdhSymmetric A" and "hashLength A" and "addressNonempty A"
    and keys: "generateStealthKeys A s0 = (Inr K, s1)"
    and gen: "generateStealthAddress A (sk_viewingPublicKey K) spendingPublicKey
                ephemeralPrivateKey s = (Inr S, s')"
  shows "scanRecord A (sk_viewingPrivateKey K) (sk_viewingPublicKey K)
           (createStealthMetadata S network now) = Inr (Some S)
         \<and> with0x (sk_viewingPrivateKey K) = sk_viewingPrivateKey K
         \<and> with0x (sk_viewingPublicKey K) = sk_viewingPublicKey K
         \<and> sk_viewingPrivateKey K \<noteq> [] \<and> sk_viewingPublicKey K \<noteq> []"
proof -
  obtain viewBytes viewPub where
    vpriv: "sk_viewingPrivateKey K = toHex viewBytes"
    and vget: "getPublicKey A viewBytes True = Inr viewPub"
    and vpub: "sk_viewingPublicKey K = uint8ArrayToHex viewPub"
    using generateStealthKeys_Inr[OF keys] by blast
  have lenV: "length viewBytes = 32" and lenVP: "length viewPub = 33"
    using assms(1) vget unfolding publicKeyLengths_def by force+
  have vpub0x: "with0x (sk_viewingPublicKey K) = sk_viewingPublicKey K"
    by (simp add: vpub with0x_uint8ArrayToHex)
  have vpriv0x: "with0x (sk_viewingPrivateKey K) = sk_viewingPrivateKey K"
    by (simp add: vpriv toHex_eq with0x_uint8ArrayToHex)
  obtain ephemeralKey sharedSecret stealthPrivateKey where
    eder: "derivePublicKey A ephemeralKey = Inr (sa_ephemeralPublicKey S)"
    and ecdh: "computeECDH A ephemeralKey (sk_viewingPublicKey K) = Inr sharedSecret"
    and spk: "stealthPrivateKeyOf A sharedSecret (sk_viewingPublicKey K) = Inr stealthPrivateKey"
    and acc: "accountAddress A stealthPrivateKey = Inr (sa_address S)"
    and tag: "sa_viewTag S = toLowerCase (slice 2 4 sharedSecret)"
    using generateStealthAddress_Inr[OF gen] unfolding vpub0x by blast
  obtain ephPub where
    eget: "getPublicKey A (hexToUint8Array ephemeralKey) True = Inr ephPub"
    and epub: "sa_ephemeralPublicKey S = uint8ArrayToHex ephPub"
    using derivePublicKey_Inr[OF eder] by blast
  have lenEP: "length ephPub = 33"
    using assms(1) eget unfolding publicKeyLengths_def by force
  obtain sharedPoint where
    sp: "getSharedSecret A (hexToUint8Array ephemeralKey) viewPub True = Inr sharedPoint"
    and ss: "sharedSecret = toHex (keccak_256 A sharedPoint)"
    using computeECDH_Inr[OF ecdh] by (auto simp: vpub hexToUint8Array_uint8ArrayToHex)
  obtain shared where
    s1: "getSharedSecret A (hexToUint8Array ephemeralKey) viewPub True = Inr shared"
    and s2: "getSharedSecret A viewBytes ephPub True = Inr shared"
    using assms(2) eget vget unfolding ecdhSymmetric_def by blast
  have same: "shared = sharedPoint" using sp s1 by simp
  have len66: "length (with0x (sk_viewingPrivateKey K)) = 66"
    by (simp add: vpriv toHex_eq with0x_uint8ArrayToHex length_uint8ArrayToHex lenV)
  have recv: "computeECDH A (sk_viewingPrivateKey K) (sa_ephemeralPublicKey S) = Inr sharedSecret"
    using computeECDH_ok[OF len66 epub _ ] s2 lenEP
    by (simp add: vpriv hexToUint8Array_toHex same ss)
  obtain h where h: "toLowerCase (slice 2 4 sharedSecret) = byteToHex h"
    using viewTag_of_hash[OF assms(3)] ss by blast
  let ?meta = "createStealthMetadata S network now"
  have addr: "sa_address S \<noteq> []"
    using assms(4) acc unfolding addressNonempty_def by blast
  have e0x: "with0x (sa_ephemeralPublicKey S) = sa_ephemeralPublicKey S"
    by (simp add: epub with0x_uint8ArrayToHex)
  have echo: "echoRecord ?meta = S"
    by (simp add: echoRecord_def createStealthMetadata_def e0x)
  have "scanRecord A (sk_viewingPrivateKey K) (sk_viewingPublicKey K) ?meta
          = Inr (Some (echoRecord ?meta))"
  proof (rule scanRecord_match)
    show "meta_stealthAddress ?meta \<noteq> []" using addr by (simp add: createStealthMetadata_def)
    show "meta_ephemeralPublicKey ?meta \<noteq> []"
      by (simp add: createStealthMetadata_def epub uint8ArrayToHex_def)
    show "meta_viewTag ?meta \<noteq> []"
      by (simp add: createStealthMetadata_def tag h byteToHex_nonempty)
    show "computeECDH A (sk_viewingPrivateKey K) (with0x (meta_ephemeralPublicKey ?meta))
            = Inr sharedSecret"
      using recv by (simp add: createStealthMetadata_def e0x)
    show "toLowerCase (slice 2 4 sharedSecret)
            = replaceLeading0x (toLowerCase (meta_viewTag ?meta))"
      by (simp add: createStealthMetadata_def tag h toLowerCase_byteToHex replaceLeading0x_byteToHex)
    show "stealthPrivateKeyOf A sharedSecret (sk_viewingPublicKey K) = Inr stealthPrivateKey"
      by (rule spk)
    show "accountAddress A stealthPrivateKey = Inr (sa_address S)" by (rule acc)
    show "toLowerCase (sa_address S) = toLowerCase (meta_stealthAddress ?meta)"
      by (simp add: createStealthMetadata_def)
  qed
  moreover have "sk_viewingPrivateKey K \<noteq> []" "sk_viewingPublicKey K \<noteq> []"
    by (simp_all add: vpriv vpub toHex_def uint8ArrayToHex_def)
  ultimately show ?thesis
    using vpriv0x vpub0x by (simp add: echo)
qed

lemma roundtrip_core:
  assumes "publicKeyLengths A" and "ecdhSymmetric A" and "hashLength A" and "addressNonempty A"
    and "generateStealthKeys A s0 = (Inr K, s1)"
    and "generateStealthAddress A (sk_viewingPublicKey K) spendingPublicKey
           ephemeralPrivateKey s = (Inr S, s')"
  shows "scanStealthAddresses A (sk_viewingPrivateKey K) (sk_viewingPublicKey K)
           [createStealthMetadata S network now] = Inr [S]"
  using roundtrip_record[OF assms, of network now]
  unfolding scanStealthAddresses_concat by (simp add: pushed_def)

text \<open>
  Claim C1. For keys \<open>K\<close> returned by \<^verbatim>\<open>generateStealthKeys\<close> and a stealth address \<open>S\<close>
  returned by \<^verbatim>\<open>generateStealthAddress\<close> for \<open>K\<close>'s viewing public key (with any or no
  spending public key and ephemeral private key), scanning the one metadata record that
  \<^verbatim>\<open>createStealthMetadata\<close> builds from \<open>S\<close> with \<open>K\<close>'s viewing keys returns exactly \<open>[S]\<close>:
  one result, with the address, the ephemeral public key and the view tag of \<open>S\<close>. The
  hypotheses on the adapter are what the proof needs from the libraries.
\<close>

theorem generation_scan_roundtrip:
  assumes "publicKeyLengths A" and "ecdhSymmetric A" and "hashLength A" and "addressNonempty A"
    and "generateStealthKeys A s0 = (Inr K, s1)"
    and "generateStealthAddress A (sk_viewingPublicKey K) spendingPublicKey
           ephemeralPrivateKey s = (Inr S, s')"
  shows "scanStealthAddresses A (sk_viewingPrivateKey K) (sk_viewingPublicKey K)
           [createStealthMetadata S network now] = Inr [S]"
  using assms by (rule roundtrip_core)

section \<open>The encoding of the outputs\<close>

lemma hexChar_lowercase: "n < 16 \<Longrightarrow> isLowerHexDigit (hexChar n)"
  by (drule lt16_cases) (auto simp: hexChar_def isLowerHexDigit_def)

lemma list_all_byteToHex: "list_all isLowerHexDigit (byteToHex b)"
proof -
  have a: "unat b div 16 < 16" using unsigned_less[of b, where ?'a = nat] by simp
  have c: "unat b mod 16 < 16" by simp
  show ?thesis
    using hexChar_lowercase[OF a] hexChar_lowercase[OF c] by (simp add: byteToHex_def)
qed

lemma lowercaseHex0x_uint8ArrayToHex: "lowercaseHex0x (uint8ArrayToHex bs)"
proof -
  have "list_all isLowerHexDigit (concat (map byteToHex bs))"
    by (induction bs) (simp_all add: list_all_byteToHex)
  then show ?thesis by (simp add: lowercaseHex0x_def uint8ArrayToHex_def)
qed

lemma lowercaseHex0x_toHex: "lowercaseHex0x (toHex bs)"
  by (simp add: toHex_eq lowercaseHex0x_uint8ArrayToHex)

lemma not_lowercaseHex0x_byteToHex: "\<not> lowercaseHex0x (byteToHex h)"
proof -
  have c: "unat h mod 16 < 16" by simp
  show ?thesis
    using hexChar_not_special[OF c] by (simp add: lowercaseHex0x_def byteToHex_def)
qed

lemma stealthPrivateKeyOf_Inr:
  "stealthPrivateKeyOf A sharedSecret viewingPub = Inr key \<Longrightarrow> \<exists>bytes. key = toHex bytes"
  by (auto simp: stealthPrivateKeyOf_def keccak256_def Let_def split: sum.splits)

lemma generateStealthAddress_exact:
  assumes "generateStealthAddress A viewingPublicKey spendingPublicKey ephemeralPrivateKey s
             = (Inr S, s')"
  shows "derivePublicKey A (ephemeralKeyOf A ephemeralPrivateKey s) = Inr (sa_ephemeralPublicKey S)
         \<and> (\<exists>sharedSecret stealthPrivateKey.
               computeECDH A (ephemeralKeyOf A ephemeralPrivateKey s) (with0x viewingPublicKey)
                 = Inr sharedSecret
               \<and> stealthPrivateKeyOf A sharedSecret (with0x viewingPublicKey) = Inr stealthPrivateKey
               \<and> accountAddress A stealthPrivateKey = Inr (sa_address S)
               \<and> sa_viewTag S = toLowerCase (slice 2 4 sharedSecret))"
  using assms
  unfolding generateStealthAddress_def Let_def with0x_def[symmetric] ephemeralKeyOf_def
  by (auto split: if_splits prod.splits sum.splits option.splits)

lemma firstByte_of_hash:
  assumes "hashLength A"
  shows "\<exists>firstByte rest.
           hexToBytes v (toHex (keccak_256 A sharedPoint)) = Inr (firstByte # rest)
           \<and> toLowerCase (slice 2 4 (toHex (keccak_256 A sharedPoint))) = byteToHex firstByte"
proof -
  have "length (keccak_256 A sharedPoint) = 32" using assms by (simp add: hashLength_def)
  then obtain h t where ht: "keccak_256 A sharedPoint = h # t"
    by (cases "keccak_256 A sharedPoint") auto
  have "hexToBytes v (toHex (h # t)) = Inr (h # t)"
    by (simp add: toHex_eq hexToBytes_uint8ArrayToHex)
  then show ?thesis
    unfolding ht by (auto simp: slice_toHex toLowerCase_byteToHex)
qed

lemma byteToHex_shape:
  "length (byteToHex h) = 2 \<and> list_all isLowerHexDigit (byteToHex h)
   \<and> \<not> startsWith0x (byteToHex h)"
proof -
  have c: "unat h mod 16 < 16" by simp
  show ?thesis
    using hexChar_not_special[OF c] list_all_byteToHex[of h]
    by (simp add: byteToHex_def startsWith0x_def)
qed

text \<open>
  Claim C9, as the code has it. The values the SDK encodes itself are lowercase hex behind
  a \<^verbatim>\<open>0x\<close> prefix: the four keys of \<^verbatim>\<open>generateStealthKeys\<close>, the \<^verbatim>\<open>ephemeralPublicKey\<close> of
  \<^verbatim>\<open>generateStealthAddress\<close>, which is \<^verbatim>\<open>derivePublicKey\<close> of the ephemeral private key, and
  the key returned by \<^verbatim>\<open>deriveStealthSpendingKey\<close>. With \<open>sharedSecret\<close> the value of
  \<^verbatim>\<open>computeECDH\<close> on the ephemeral private key and the viewing public key, the \<^verbatim>\<open>viewTag\<close> of
  \<^verbatim>\<open>generateStealthAddress\<close> is the two lowercase hex digits of the first byte of
  \<open>sharedSecret\<close>, without a \<^verbatim>\<open>0x\<close> prefix, and its \<^verbatim>\<open>address\<close> is the string the account
  library returns for the one-time private key, the hash of \<open>sharedSecret\<close> followed by the
  viewing public key, as it is. Every result of \<^verbatim>\<open>scanStealthAddresses\<close> carries the
  \<^verbatim>\<open>stealthAddress\<close> and \<^verbatim>\<open>viewTag\<close> strings of a record of the input as they are stored, and
  its \<^verbatim>\<open>ephemeralPublicKey\<close> with \<^verbatim>\<open>0x\<close> in front when it was missing.
\<close>

theorem output_encoding:
  "(generateStealthKeys A s0 = (Inr K, s1) \<longrightarrow>
      lowercaseHex0x (sk_spendingPrivateKey K) \<and> lowercaseHex0x (sk_viewingPrivateKey K)
      \<and> lowercaseHex0x (sk_spendingPublicKey K) \<and> lowercaseHex0x (sk_viewingPublicKey K))
   \<and> (hashLength A
       \<and> generateStealthAddress A viewingPublicKey spendingPublicKey ephemeralPrivateKey s
           = (Inr S, s') \<longrightarrow>
      derivePublicKey A (ephemeralKeyOf A ephemeralPrivateKey s) = Inr (sa_ephemeralPublicKey S)
      \<and> lowercaseHex0x (sa_ephemeralPublicKey S)
      \<and> (\<exists>sharedSecret firstByte rest stealthPrivateKey.
            computeECDH A (ephemeralKeyOf A ephemeralPrivateKey s) (with0x viewingPublicKey)
              = Inr sharedSecret
            \<and> hexToBytes (viemVersion A) sharedSecret = Inr (firstByte # rest)
            \<and> sa_viewTag S = byteToHex firstByte
            \<and> stealthPrivateKeyOf A sharedSecret (with0x viewingPublicKey) = Inr stealthPrivateKey
            \<and> accountAddress A stealthPrivateKey = Inr (sa_address S))
      \<and> length (sa_viewTag S) = 2 \<and> list_all isLowerHexDigit (sa_viewTag S)
      \<and> \<not> startsWith0x (sa_viewTag S) \<and> \<not> lowercaseHex0x (sa_viewTag S))
   \<and> (deriveStealthSpendingKey A spendingPrivateKey viewingPrivateKey stealthAddress
         ephemeralPublicKey viewingPublicKeyOpt = Inr key \<longrightarrow>
      lowercaseHex0x key)
   \<and> (scanStealthAddresses A scanPrivateKey scanPublicKey metas = Inr found \<longrightarrow>
      (\<forall>r \<in> set found. \<exists>meta \<in> set metas.
         sa_address r = meta_stealthAddress meta \<and> sa_viewTag r = meta_viewTag meta
         \<and> sa_ephemeralPublicKey r = with0x (meta_ephemeralPublicKey meta)))"
proof -
  have keysPart:
    "lowercaseHex0x (sk_spendingPrivateKey K) \<and> lowercaseHex0x (sk_viewingPrivateKey K)
      \<and> lowercaseHex0x (sk_spendingPublicKey K) \<and> lowercaseHex0x (sk_viewingPublicKey K)"
    if keys: "generateStealthKeys A s0 = (Inr K, s1)"
    using generateStealthKeys_Inr[OF keys]
    by (auto simp: lowercaseHex0x_toHex lowercaseHex0x_uint8ArrayToHex)
  have genPart:
    "derivePublicKey A (ephemeralKeyOf A ephemeralPrivateKey s) = Inr (sa_ephemeralPublicKey S)
      \<and> lowercaseHex0x (sa_ephemeralPublicKey S)
      \<and> (\<exists>sharedSecret firstByte rest stealthPrivateKey.
            computeECDH A (ephemeralKeyOf A ephemeralPrivateKey s) (with0x viewingPublicKey)
              = Inr sharedSecret
            \<and> hexToBytes (viemVersion A) sharedSecret = Inr (firstByte # rest)
            \<and> sa_viewTag S = byteToHex firstByte
            \<and> stealthPrivateKeyOf A sharedSecret (with0x viewingPublicKey) = Inr stealthPrivateKey
            \<and> accountAddress A stealthPrivateKey = Inr (sa_address S))
      \<and> length (sa_viewTag S) = 2 \<and> list_all isLowerHexDigit (sa_viewTag S)
      \<and> \<not> startsWith0x (sa_viewTag S) \<and> \<not> lowercaseHex0x (sa_viewTag S)"
    if hash: "hashLength A"
      and gen: "generateStealthAddress A viewingPublicKey spendingPublicKey ephemeralPrivateKey s
                  = (Inr S, s')"
  proof -
    let ?ek = "ephemeralKeyOf A ephemeralPrivateKey s"
    obtain sharedSecret stealthPrivateKey where
      eder: "derivePublicKey A ?ek = Inr (sa_ephemeralPublicKey S)"
      and ecdh: "computeECDH A ?ek (with0x viewingPublicKey) = Inr sharedSecret"
      and spk: "stealthPrivateKeyOf A sharedSecret (with0x viewingPublicKey) = Inr stealthPrivateKey"
      and acc: "accountAddress A stealthPrivateKey = Inr (sa_address S)"
      and tag: "sa_viewTag S = toLowerCase (slice 2 4 sharedSecret)"
      using generateStealthAddress_exact[OF gen] by blast
    obtain sharedPoint where ss: "sharedSecret = toHex (keccak_256 A sharedPoint)"
      using computeECDH_Inr[OF ecdh] by blast
    obtain firstByte rest where
      dec: "hexToBytes (viemVersion A) sharedSecret = Inr (firstByte # rest)"
      and h: "sa_viewTag S = byteToHex firstByte"
      using firstByte_of_hash[OF hash, of "viemVersion A" sharedPoint] tag ss by auto
    have pub: "lowercaseHex0x (sa_ephemeralPublicKey S)"
      using derivePublicKey_Inr[OF eder] by (auto simp: lowercaseHex0x_uint8ArrayToHex)
    have ex: "\<exists>sharedSecret firstByte rest stealthPrivateKey.
            computeECDH A ?ek (with0x viewingPublicKey) = Inr sharedSecret
            \<and> hexToBytes (viemVersion A) sharedSecret = Inr (firstByte # rest)
            \<and> sa_viewTag S = byteToHex firstByte
            \<and> stealthPrivateKeyOf A sharedSecret (with0x viewingPublicKey) = Inr stealthPrivateKey
            \<and> accountAddress A stealthPrivateKey = Inr (sa_address S)"
      using ecdh dec h spk acc by blast
    show ?thesis
      using eder pub ex byteToHex_shape[of firstByte] not_lowercaseHex0x_byteToHex[of firstByte]
      unfolding h by blast
  qed
  have derivePart: "lowercaseHex0x key"
    if d: "deriveStealthSpendingKey A spendingPrivateKey viewingPrivateKey stealthAddress
             ephemeralPublicKey viewingPublicKeyOpt = Inr key"
  proof -
    obtain sharedSecret viewingPub where
      "stealthPrivateKeyOf A sharedSecret viewingPub = Inr key"
      using d unfolding deriveStealthSpendingKey_def
      by (auto split: sum.splits if_splits)
    from stealthPrivateKeyOf_Inr[OF this] show ?thesis
      by (auto simp: lowercaseHex0x_toHex)
  qed
  have scanPart:
    "\<forall>r \<in> set found. \<exists>meta \<in> set metas.
         sa_address r = meta_stealthAddress meta \<and> sa_viewTag r = meta_viewTag meta
         \<and> sa_ephemeralPublicKey r = with0x (meta_ephemeralPublicKey meta)"
    if sc: "scanStealthAddresses A scanPrivateKey scanPublicKey metas = Inr found"
  proof -
    have "found = map echoRecord
            (filter (\<lambda>meta. pushed A (with0x scanPrivateKey) (with0x scanPublicKey) meta \<noteq> []) metas)"
      using sc unfolding scanStealthAddresses_concat concat_pushed_filter
      by (auto split: if_splits)
    then show ?thesis by (auto simp: echoRecord_def)
  qed
  show ?thesis using keysPart genPart derivePart scanPart by blast
qed

section \<open>The executable instance has the five properties\<close>

lemma xor_publicKeyLengths: "publicKeyLengths xorAdapter"
  by (auto simp: publicKeyLengths_def xorAdapter_def split: if_splits)

lemma map2_xor_commute: "map2 (XOR) xs ys = map2 (XOR) ys (xs :: byte list)"
proof (induction xs arbitrary: ys)
  case Nil
  then show ?case by simp
next
  case (Cons x xs)
  then show ?case by (cases ys) (simp_all add: xor.commute)
qed

lemma xor_ecdhSymmetric: "ecdhSymmetric xorAdapter"
  unfolding ecdhSymmetric_def xorAdapter_def
  by (auto simp: map2_xor_commute split: if_splits)

lemma xor_encodingsAgree: "encodingsAgree xorAdapter"
  unfolding encodingsAgree_def xorAdapter_def
  by (auto split: if_splits)

lemma xor_hashLength: "hashLength xorAdapter"
  by (simp add: hashLength_def xorAdapter_def mixHash_def min_def)

lemma xor_addressNonempty: "addressNonempty xorAdapter"
  by (auto simp: addressNonempty_def xorAdapter_def split: if_splits)

section \<open>The SDK on the executable instance\<close>

lemma demo_gp0:
  "generatePrivateKey xorAdapter 0 = (sk_spendingPrivateKey demoKeys, 1)"
  by code_simp

lemma demo_gp1:
  "generatePrivateKey xorAdapter 1 = (sk_viewingPrivateKey demoKeys, 2)"
  by code_simp

lemma demo_gp2: "generatePrivateKey xorAdapter 2 = (demoEphemeralPrivateKey, 3)"
  by code_simp

lemma demo_dp0:
  "derivePublicKey xorAdapter (sk_spendingPrivateKey demoKeys) = Inr (sk_spendingPublicKey demoKeys)"
  by code_simp

lemma demo_dp1:
  "derivePublicKey xorAdapter (sk_viewingPrivateKey demoKeys) = Inr (sk_viewingPublicKey demoKeys)"
  by code_simp

lemma demo_dp2:
  "derivePublicKey xorAdapter demoEphemeralPrivateKey = Inr (sa_ephemeralPublicKey demoStealth)"
  by code_simp

lemma demo_keys: "generateStealthKeys xorAdapter 0 = (Inr demoKeys, 2)"
  by (simp add: generateStealthKeys_def demo_gp0 demo_gp1 demo_dp0 demo_dp1)

lemma demo_ecdh_send:
  "computeECDH xorAdapter demoEphemeralPrivateKey (sk_viewingPublicKey demoKeys)
     = Inr demoSharedSecret"
  by code_simp

lemma demo_stealthPrivateKey:
  "stealthPrivateKeyOf xorAdapter demoSharedSecret (sk_viewingPublicKey demoKeys)
     = Inr demoStealthPrivateKey"
  by code_simp

lemma demo_account:
  "accountAddress xorAdapter demoStealthPrivateKey = Inr (sa_address demoStealth)"
  by code_simp

lemma demo_viewTag: "toLowerCase (slice 2 4 demoSharedSecret) = sa_viewTag demoStealth"
  by code_simp

lemma demo_lengths:
  "length (sk_viewingPublicKey demoKeys) = 68"
  "startsWith0x (sk_viewingPublicKey demoKeys)"
  "length (with0x (sk_viewingPrivateKey demoKeys)) = 66"
  "length (with0x demoEphemeralPrivateKey) = 66"
  by (simp_all add: demoKeys_def demoEphemeralPrivateKey_def with0x_def startsWith0x_def)

lemma demo_stealth:
  "generateStealthAddress xorAdapter (sk_viewingPublicKey demoKeys) None None 2
     = (Inr demoStealth, 3)"
  by (simp add: generateStealthAddress_def demo_lengths demo_gp2 demo_dp2 demo_ecdh_send
        demo_stealthPrivateKey demo_account demo_viewTag)

section \<open>The properties at the concrete inputs\<close>

text \<open>Each theorem above that has a hypothesis is applied to the executable instance, with
  every hypothesis established there.\<close>

text \<open>Claim C1 at the demo keys and the demo stealth address.\<close>

theorem generation_scan_roundtrip_witness:
  "generateStealthKeys xorAdapter 0 = (Inr demoKeys, 2)
   \<and> generateStealthAddress xorAdapter (sk_viewingPublicKey demoKeys) None None 2
       = (Inr demoStealth, 3)
   \<and> scanStealthAddresses xorAdapter (sk_viewingPrivateKey demoKeys) (sk_viewingPublicKey demoKeys)
       [createStealthMetadata demoStealth ''eth'' 0] = Inr [demoStealth]"
  using generation_scan_roundtrip[OF xor_publicKeyLengths xor_ecdhSymmetric xor_hashLength
      xor_addressNonempty demo_keys demo_stealth, of "''eth''" 0]
    demo_keys demo_stealth
  by simp

text \<open>Claim C2 at the sender's ephemeral key and the receiver's viewing key.\<close>

theorem ecdh_symmetry_witness:
  "computeECDH xorAdapter demoEphemeralPrivateKey (sk_viewingPublicKey demoKeys)
     = computeECDH xorAdapter (sk_viewingPrivateKey demoKeys) (sa_ephemeralPublicKey demoStealth)
   \<and> computeECDH xorAdapter demoEphemeralPrivateKey (sk_viewingPublicKey demoKeys)
       = Inr demoSharedSecret"
  using ecdh_symmetry[OF xor_ecdhSymmetric xor_publicKeyLengths demo_lengths(4) demo_lengths(3)
      demo_dp2 demo_dp1] demo_ecdh_send
  by simp

lemma demo_ecdh_receive:
  "computeECDH xorAdapter (sk_viewingPrivateKey demoKeys) (sa_ephemeralPublicKey demoStealth)
     = Inr demoSharedSecret"
  using ecdh_core[OF xor_ecdhSymmetric xor_publicKeyLengths demo_lengths(4) demo_lengths(3)
      demo_dp2 demo_dp1] demo_ecdh_send
  by simp

lemma demo_scan:
  "scanStealthAddresses xorAdapter (sk_viewingPrivateKey demoKeys) (sk_viewingPublicKey demoKeys)
     [createStealthMetadata demoStealth ''eth'' 0] = Inr [demoStealth]"
  by (rule roundtrip_core[OF xor_publicKeyLengths xor_ecdhSymmetric xor_hashLength
        xor_addressNonempty demo_keys demo_stealth])

lemma demo_tag_only_facts:
  "with0x (meta_ephemeralPublicKey demoTagOnlyRecord) = sa_ephemeralPublicKey demoStealth"
  "toLowerCase (slice 2 4 demoSharedSecret)
     = replaceLeading0x (toLowerCase (meta_viewTag demoTagOnlyRecord))"
  "toLowerCase (sa_address demoStealth) \<noteq> toLowerCase (meta_stealthAddress demoTagOnlyRecord)"
  by code_simp+

lemma demo_keys_with0x:
  "with0x (sk_viewingPrivateKey demoKeys) = sk_viewingPrivateKey demoKeys"
  "with0x (sk_viewingPublicKey demoKeys) = sk_viewingPublicKey demoKeys"
  "sk_viewingPrivateKey demoKeys \<noteq> []"
  "sk_viewingPublicKey demoKeys \<noteq> []"
  by (simp_all add: with0x_def startsWith0x_def demoKeys_def)

text \<open>Claim C3 at the scan of the demo record, and at a record whose view tag matches while it claims another address: it is not returned.\<close>

theorem view_tag_filter_soundness_witness:
  "scanStealthAddresses xorAdapter (sk_viewingPrivateKey demoKeys) (sk_viewingPublicKey demoKeys)
     [createStealthMetadata demoStealth ''eth'' 0] = Inr [demoStealth]
   \<and> (\<exists>meta sharedSecret stealthPrivateKey derivedAddress.
        meta \<in> set [createStealthMetadata demoStealth ''eth'' 0] \<and> demoStealth = echoRecord meta
        \<and> computeECDH xorAdapter (with0x (sk_viewingPrivateKey demoKeys))
             (with0x (meta_ephemeralPublicKey meta)) = Inr sharedSecret
        \<and> stealthPrivateKeyOf xorAdapter sharedSecret (with0x (sk_viewingPublicKey demoKeys))
             = Inr stealthPrivateKey
        \<and> accountAddress xorAdapter stealthPrivateKey = Inr derivedAddress
        \<and> toLowerCase derivedAddress = toLowerCase (meta_stealthAddress meta))
   \<and> toLowerCase (slice 2 4 demoSharedSecret)
       = replaceLeading0x (toLowerCase (meta_viewTag demoTagOnlyRecord))
   \<and> scanStealthAddresses xorAdapter (sk_viewingPrivateKey demoKeys) (sk_viewingPublicKey demoKeys)
       [demoTagOnlyRecord] = Inr []"
proof -
  have hit: "\<exists>meta sharedSecret stealthPrivateKey derivedAddress.
        meta \<in> set [createStealthMetadata demoStealth ''eth'' 0] \<and> demoStealth = echoRecord meta
        \<and> computeECDH xorAdapter (with0x (sk_viewingPrivateKey demoKeys))
             (with0x (meta_ephemeralPublicKey meta)) = Inr sharedSecret
        \<and> stealthPrivateKeyOf xorAdapter sharedSecret (with0x (sk_viewingPublicKey demoKeys))
             = Inr stealthPrivateKey
        \<and> accountAddress xorAdapter stealthPrivateKey = Inr derivedAddress
        \<and> toLowerCase derivedAddress = toLowerCase (meta_stealthAddress meta)"
    using view_tag_filter_soundness[OF demo_scan] by simp
  obtain found where found:
    "scanStealthAddresses xorAdapter (sk_viewingPrivateKey demoKeys) (sk_viewingPublicKey demoKeys)
       [demoTagOnlyRecord] = Inr found"
    unfolding scanStealthAddresses_concat using demo_keys_with0x by simp
  have ecdh: "computeECDH xorAdapter (with0x (sk_viewingPrivateKey demoKeys))
      (with0x (meta_ephemeralPublicKey demoTagOnlyRecord)) = Inr demoSharedSecret"
    by (simp add: demo_keys_with0x demo_tag_only_facts(1) demo_ecdh_receive)
  have no: "\<not> (\<exists>stealthPrivateKey derivedAddress.
      stealthPrivateKeyOf xorAdapter demoSharedSecret (with0x (sk_viewingPublicKey demoKeys))
        = Inr stealthPrivateKey
      \<and> accountAddress xorAdapter stealthPrivateKey = Inr derivedAddress
      \<and> toLowerCase derivedAddress = toLowerCase (meta_stealthAddress demoTagOnlyRecord))"
    using demo_tag_only_facts(3)
    by (auto simp: demo_keys_with0x demo_stealthPrivateKey demo_account)
  have out: "echoRecord demoTagOnlyRecord \<notin> set found"
    using view_tag_filter_soundness[OF found] ecdh demo_tag_only_facts(2) no by blast
  have "r = echoRecord demoTagOnlyRecord" if "r \<in> set found" for r
    using view_tag_filter_soundness[OF found] that by auto
  with out have "found = []" by (cases found) auto
  with found hit demo_scan demo_tag_only_facts(2) show ?thesis by simp
qed

lemma demo_derive:
  "deriveStealthSpendingKey xorAdapter (sk_spendingPrivateKey demoKeys)
     (sk_viewingPrivateKey demoKeys) (sa_address demoStealth) (sa_ephemeralPublicKey demoStealth)
     (Some (sk_viewingPublicKey demoKeys)) = Inr demoStealthPrivateKey"
  by (simp add: deriveStealthSpendingKey_def demo_ecdh_receive demo_stealthPrivateKey demo_account)
     (simp add: demoKeys_def)

lemma demo_lower_mismatch:
  "toLowerCase (sa_address demoStealth) \<noteq> toLowerCase (meta_stealthAddress demoOtherRecord)"
  by code_simp

text \<open>Claim C4 at the demo payment: the key is returned for its own address and refused for another one.\<close>

theorem spend_key_self_verification_witness:
  "deriveStealthSpendingKey xorAdapter (sk_spendingPrivateKey demoKeys)
     (sk_viewingPrivateKey demoKeys) (sa_address demoStealth) (sa_ephemeralPublicKey demoStealth)
     (Some (sk_viewingPublicKey demoKeys)) = Inr demoStealthPrivateKey
   \<and> (\<exists>derivedAddress. accountAddress xorAdapter demoStealthPrivateKey = Inr derivedAddress
        \<and> toLowerCase derivedAddress = toLowerCase (sa_address demoStealth))
   \<and> deriveStealthSpendingKey xorAdapter (sk_spendingPrivateKey demoKeys)
       (sk_viewingPrivateKey demoKeys) (meta_stealthAddress demoOtherRecord)
       (sa_ephemeralPublicKey demoStealth) (Some (sk_viewingPublicKey demoKeys))
       = Inl (Error ''Derived address mismatch!'')"
proof -
  have nonempty: "sk_viewingPublicKey demoKeys \<noteq> []" by (simp add: demoKeys_def)
  have hit: "\<exists>derivedAddress. accountAddress xorAdapter demoStealthPrivateKey = Inr derivedAddress
        \<and> toLowerCase derivedAddress = toLowerCase (sa_address demoStealth)"
    using spend_key_self_verification[of xorAdapter "sk_spendingPrivateKey demoKeys"
      "sk_viewingPrivateKey demoKeys" "sa_address demoStealth" "sa_ephemeralPublicKey demoStealth"
      "Some (sk_viewingPublicKey demoKeys)"] demo_derive
    by blast
  have miss: "deriveStealthSpendingKey xorAdapter (sk_spendingPrivateKey demoKeys)
       (sk_viewingPrivateKey demoKeys) (meta_stealthAddress demoOtherRecord)
       (sa_ephemeralPublicKey demoStealth) (Some (sk_viewingPublicKey demoKeys))
       = Inl (Error ''Derived address mismatch!'')"
    using spend_key_self_verification[of xorAdapter "sk_spendingPrivateKey demoKeys"
      "sk_viewingPrivateKey demoKeys" "meta_stealthAddress demoOtherRecord"
      "sa_ephemeralPublicKey demoStealth" "Some (sk_viewingPublicKey demoKeys)"]
      demo_ecdh_receive demo_stealthPrivateKey demo_account demo_lower_mismatch nonempty
    by simp
  show ?thesis using demo_derive hit miss by simp
qed

text \<open>
  Against claim C5 as stated: a private key of one byte fails with the wrapper
  \<^verbatim>\<open>ECDH computation failed: ...\<close>, the same wrapper that a private key rejected by the curve
  gets (the inner message of the second error is the one of the executable instance). The
  length error is not of a kind distinct from the wrapped library errors.
\<close>

theorem shared_secret_error_taxonomy_counterexample:
  "computeECDH xorAdapter ''0x12'' (sk_viewingPublicKey demoKeys)
     = Inl (Error ''ECDH computation failed: Invalid private key length: 4, expected 66'')
   \<and> computeECDH xorAdapter
       ''0x0000000000000000000000000000000000000000000000000000000000000000''
       (sk_viewingPublicKey demoKeys)
     = Inl (Error ''ECDH computation failed: invalid private key'')
   \<and> wrappedAsECDHFailure
       (Error ''ECDH computation failed: Invalid private key length: 4, expected 66'')
   \<and> wrappedAsECDHFailure (Error ''ECDH computation failed: invalid private key'')"
  by code_simp

lemma demo_rejected_key:
  "getSharedSecret xorAdapter
     (hexToUint8Array ''0x0000000000000000000000000000000000000000000000000000000000000000'')
     (hexToUint8Array (sk_viewingPublicKey demoKeys)) True
   = Inl (Error ''invalid private key'')"
  by code_simp

text \<open>Claim C5 as amended, at an empty private key, a private key of one byte, a public key of one byte and a private key the curve rejects.\<close>

theorem computeECDH_length_errors_wrapped_witness:
  "computeECDH xorAdapter [] (sk_viewingPublicKey demoKeys)
     = Inl (Error ''ECDH computation failed: Missing private or public key'')
   \<and> computeECDH xorAdapter ''0x12'' (sk_viewingPublicKey demoKeys)
     = Inl (Error ''ECDH computation failed: Invalid private key length: 4, expected 66'')
   \<and> computeECDH xorAdapter demoEphemeralPrivateKey ''0x02''
     = Inl (Error ''ECDH computation failed: Invalid public key length: 4, expected 68 or 132'')
   \<and> computeECDH xorAdapter
       ''0x0000000000000000000000000000000000000000000000000000000000000000''
       (sk_viewingPublicKey demoKeys)
     = Inl (Error ''ECDH computation failed: invalid private key'')"
  using computeECDH_length_errors_wrapped[of "[]" "sk_viewingPublicKey demoKeys" xorAdapter]
    computeECDH_length_errors_wrapped[of "''0x12''" "sk_viewingPublicKey demoKeys" xorAdapter]
    computeECDH_length_errors_wrapped[of demoEphemeralPrivateKey "''0x02''" xorAdapter]
    computeECDH_length_errors_wrapped[of
      "''0x0000000000000000000000000000000000000000000000000000000000000000''"
      "sk_viewingPublicKey demoKeys" xorAdapter]
    demo_rejected_key
  by (simp add: with0x_def startsWith0x_def demoKeys_def demoEphemeralPrivateKey_def
        messageOrString_def)

text \<open>
  Against claim C9 as stated: the view tag of a generated stealth address is two hex digits
  without a \<^verbatim>\<open>0x\<close> prefix, and the scanner returns it so. The address is passed on as the
  account library writes it; the executable instance, like the EIP-55 checksum of
  \<^verbatim>\<open>viem\<close>, writes capitals.
\<close>

theorem output_encoding_counterexample:
  "generateStealthAddress xorAdapter (sk_viewingPublicKey demoKeys) None None 2
     = (Inr demoStealth, 3)
   \<and> scanStealthAddresses xorAdapter (sk_viewingPrivateKey demoKeys) (sk_viewingPublicKey demoKeys)
       [createStealthMetadata demoStealth ''eth'' 0] = Inr [demoStealth]
   \<and> sa_viewTag demoStealth = ''76''
   \<and> \<not> lowercaseHex0x (sa_viewTag demoStealth)
   \<and> sa_address demoStealth = ''0x22858A51F67D4EFD5E6DCE65965D468DD65DEE69''
   \<and> \<not> lowercaseHex0x (sa_address demoStealth)"
  using demo_stealth demo_scan
  by (simp add: demoStealth_def lowercaseHex0x_def isLowerHexDigit_def)

lemma demo_match_record:
  "scanRecord xorAdapter (with0x (sk_viewingPrivateKey demoKeys))
     (with0x (sk_viewingPublicKey demoKeys)) (createStealthMetadata demoStealth ''eth'' 0)
     = Inr (Some demoStealth)"
  using roundtrip_record[OF xor_publicKeyLengths xor_ecdhSymmetric xor_hashLength
      xor_addressNonempty demo_keys demo_stealth, of "''eth''" 0]
  by simp

lemma demo_other_record:
  "scanRecord xorAdapter (sk_viewingPrivateKey demoKeys) (sk_viewingPublicKey demoKeys)
     demoOtherRecord = Inr None"
  by code_simp

text \<open>Claim C6 at a record without ephemeral key, the demo record and the record of another payment.\<close>

theorem scanner_error_isolation_witness:
  "meta_ephemeralPublicKey demoMalformedRecord = []
   \<and> scanStealthAddresses xorAdapter (sk_viewingPrivateKey demoKeys) (sk_viewingPublicKey demoKeys)
       [demoMalformedRecord, createStealthMetadata demoStealth ''eth'' 0, demoOtherRecord]
       = Inr [demoStealth]"
proof -
  have bad: "meta_ephemeralPublicKey demoMalformedRecord = []"
    by (simp add: demoMalformedRecord_def)
  have other: "scanRecord xorAdapter (with0x (sk_viewingPrivateKey demoKeys))
       (with0x (sk_viewingPublicKey demoKeys)) demoOtherRecord
       \<noteq> Inr (Some (echoRecord demoOtherRecord))"
    by (simp add: demo_keys_with0x demo_other_record)
  show ?thesis
    using scanner_error_isolation[OF demo_keys_with0x(3) demo_keys_with0x(4), of xorAdapter "[]"]
      bad demo_match_record other
    by blast
qed

lemma demo_publicKeys:
  "getPublicKey xorAdapter demoScalarBytes True = Inr (2 # demoScalarBytes)"
  "getPublicKey xorAdapter demoScalarBytes False = Inr (4 # demoScalarBytes @ replicate 32 0)"
  by code_simp+

text \<open>Claim C8 at the two encodings of the demo viewing public key.\<close>

theorem point_encoding_normalization_witness:
  "length (2 # demoScalarBytes) = 33 \<and> length (4 # demoScalarBytes @ replicate 32 0) = 65
   \<and> computeECDH xorAdapter demoEphemeralPrivateKey (uint8ArrayToHex (2 # demoScalarBytes))
       = computeECDH xorAdapter demoEphemeralPrivateKey
           (uint8ArrayToHex (4 # demoScalarBytes @ replicate 32 0))
   \<and> (\<exists>secret. computeECDH xorAdapter demoEphemeralPrivateKey
                  (uint8ArrayToHex (2 # demoScalarBytes)) = Inr secret)"
  by (rule point_encoding_normalization[OF xor_publicKeyLengths xor_ecdhSymmetric
        xor_encodingsAgree demo_lengths(4) demo_dp2 demo_publicKeys])

text \<open>Claim C9 as amended, at the demo keys, the demo stealth address, the recovered key and the scan of the demo record.\<close>

theorem output_encoding_witness:
  "lowercaseHex0x (sk_spendingPrivateKey demoKeys) \<and> lowercaseHex0x (sk_viewingPrivateKey demoKeys)
   \<and> lowercaseHex0x (sk_spendingPublicKey demoKeys) \<and> lowercaseHex0x (sk_viewingPublicKey demoKeys)
   \<and> lowercaseHex0x (sa_ephemeralPublicKey demoStealth)
   \<and> derivePublicKey xorAdapter (ephemeralKeyOf xorAdapter None 2)
       = Inr (sa_ephemeralPublicKey demoStealth)
   \<and> (\<exists>sharedSecret firstByte rest stealthPrivateKey.
        computeECDH xorAdapter (ephemeralKeyOf xorAdapter None 2)
          (with0x (sk_viewingPublicKey demoKeys)) = Inr sharedSecret
        \<and> hexToBytes (viemVersion xorAdapter) sharedSecret = Inr (firstByte # rest)
        \<and> sa_viewTag demoStealth = byteToHex firstByte
        \<and> stealthPrivateKeyOf xorAdapter sharedSecret (with0x (sk_viewingPublicKey demoKeys))
            = Inr stealthPrivateKey
        \<and> accountAddress xorAdapter stealthPrivateKey = Inr (sa_address demoStealth))
   \<and> length (sa_viewTag demoStealth) = 2
   \<and> \<not> startsWith0x (sa_viewTag demoStealth)
   \<and> \<not> lowercaseHex0x (sa_viewTag demoStealth)
   \<and> lowercaseHex0x demoStealthPrivateKey
   \<and> (\<exists>meta. meta = createStealthMetadata demoStealth ''eth'' 0
         \<and> sa_address demoStealth = meta_stealthAddress meta
         \<and> sa_viewTag demoStealth = meta_viewTag meta
         \<and> sa_ephemeralPublicKey demoStealth = with0x (meta_ephemeralPublicKey meta))"
  using output_encoding[where A = xorAdapter and ?s0.0 = 0 and K = demoKeys and ?s1.0 = 2
      and viewingPublicKey = "sk_viewingPublicKey demoKeys" and spendingPublicKey = None
      and ephemeralPrivateKey = None and s = 2 and S = demoStealth and s' = 3
      and spendingPrivateKey = "sk_spendingPrivateKey demoKeys"
      and viewingPrivateKey = "sk_viewingPrivateKey demoKeys"
      and stealthAddress = "sa_address demoStealth"
      and ephemeralPublicKey = "sa_ephemeralPublicKey demoStealth"
      and viewingPublicKeyOpt = "Some (sk_viewingPublicKey demoKeys)"
      and key = demoStealthPrivateKey
      and scanPrivateKey = "sk_viewingPrivateKey demoKeys"
      and scanPublicKey = "sk_viewingPublicKey demoKeys"
      and metas = "[createStealthMetadata demoStealth ''eth'' 0]"
      and found = "[demoStealth]"]
    demo_keys demo_stealth demo_derive xor_hashLength demo_scan
  by auto

lemma demo_stored_facts:
  "with0x (meta_ephemeralPublicKey demoStoredRecord) = sa_ephemeralPublicKey demoStealth"
  "toLowerCase (slice 2 4 demoSharedSecret) = replaceLeading0x (toLowerCase (meta_viewTag demoStoredRecord))"
  "toLowerCase (sa_address demoStealth) = toLowerCase (meta_stealthAddress demoStoredRecord)"
  by code_simp+

lemma demo_stored_record:
  "scanRecord xorAdapter (sk_viewingPrivateKey demoKeys) (sk_viewingPublicKey demoKeys)
     demoStoredRecord = Inr (Some (echoRecord demoStoredRecord))"
proof (rule scanRecord_match)
  show "meta_stealthAddress demoStoredRecord \<noteq> []" by (simp add: demoStoredRecord_def)
  show "meta_ephemeralPublicKey demoStoredRecord \<noteq> []" by (simp add: demoStoredRecord_def)
  show "meta_viewTag demoStoredRecord \<noteq> []" by (simp add: demoStoredRecord_def)
  show "computeECDH xorAdapter (sk_viewingPrivateKey demoKeys)
          (with0x (meta_ephemeralPublicKey demoStoredRecord)) = Inr demoSharedSecret"
    by (simp add: demo_stored_facts(1) demo_ecdh_receive)
  show "toLowerCase (slice 2 4 demoSharedSecret)
          = replaceLeading0x (toLowerCase (meta_viewTag demoStoredRecord))"
    by (rule demo_stored_facts(2))
  show "stealthPrivateKeyOf xorAdapter demoSharedSecret (sk_viewingPublicKey demoKeys)
          = Inr demoStealthPrivateKey"
    by (rule demo_stealthPrivateKey)
  show "accountAddress xorAdapter demoStealthPrivateKey = Inr (sa_address demoStealth)"
    by (rule demo_account)
  show "toLowerCase (sa_address demoStealth) = toLowerCase (meta_stealthAddress demoStoredRecord)"
    by (rule demo_stored_facts(3))
qed

lemma demo_stored_scan:
  "scanStealthAddresses xorAdapter (sk_viewingPrivateKey demoKeys) (sk_viewingPublicKey demoKeys)
     [demoStoredRecord] = Inr [echoRecord demoStoredRecord]"
  unfolding scanStealthAddresses_concat
  by (simp add: demo_keys_with0x pushed_def demo_stored_record)

text \<open>Claim C10 at the demo payment as stored: the result carries the stored lowercase address, not the derived one, the stored view tag with its prefix, and the ephemeral key with the prefix put in front.\<close>

theorem scan_echoes_record_fields_witness:
  "scanStealthAddresses xorAdapter (sk_viewingPrivateKey demoKeys) (sk_viewingPublicKey demoKeys)
     [demoStoredRecord] = Inr [echoRecord demoStoredRecord]
   \<and> [echoRecord demoStoredRecord]
       = map echoRecord
           (filter (\<lambda>meta. pushed xorAdapter (with0x (sk_viewingPrivateKey demoKeys))
                             (with0x (sk_viewingPublicKey demoKeys)) meta \<noteq> [])
              [demoStoredRecord])
   \<and> echoRecord demoStoredRecord
       = \<lparr>sa_address = ''0x22858a51f67d4efd5e6dce65965d468dd65dee69'',
          sa_ephemeralPublicKey = ''0x022323232323232323232323232323232323232323232323232323232323232303'',
          sa_viewTag = ''0x76''\<rparr>
   \<and> accountAddress xorAdapter demoStealthPrivateKey
       = Inr ''0x22858A51F67D4EFD5E6DCE65965D468DD65DEE69''"
  using scan_echoes_record_fields[OF demo_stored_scan] demo_stored_scan demo_account
  by (simp add: echoRecord_def demoStoredRecord_def with0x_def startsWith0x_def demoStealth_def)

end
